theory Spec2Isabelle
  imports Complex_Main "HOL-Library.AList" "HOL-Library.Sublist"
begin

section \<open>JavaScript values used by the orchestration layer\<close>

text \<open>
  A JavaScript string is a sequence of UTF-16 code units; a code unit is modelled as a
  natural number (below 65536 in every string the platform produces).  Literals of the
  source are written \<open>js ''...''\<close>.
\<close>

type_synonym jsstring = "nat list"

definition js :: "string \<Rightarrow> jsstring" where
  "js s = map of_char s"

text \<open>
  Exceptions of the source are values: \<open>Error m\<close> is \<^verbatim>\<open>new Error(m)\<close>, the others are the
  platform's own exception classes; \<open>ProviderError\<close> is a rejected call to the language-model
  or embedding provider.
\<close>

datatype js_error =
    Error string
  | TypeError
  | SyntaxError
  | InvalidCharacterError
  | ProviderError

text \<open>A default for a value that may be absent (\<^verbatim>\<open>??\<close>, or a default in a destructuring
  pattern).\<close>

definition or_else :: "'a option \<Rightarrow> 'a \<Rightarrow> 'a" where
  "or_else v d = (case v of None \<Rightarrow> d | Some x \<Rightarrow> x)"

definition ebind :: "js_error + 'a \<Rightarrow> ('a \<Rightarrow> js_error + 'b) \<Rightarrow> js_error + 'b" where
  "ebind m f = (case m of Inl e \<Rightarrow> Inl e | Inr x \<Rightarrow> f x)"

text \<open>\<^verbatim>\<open>Array.prototype.filter\<close> and \<^verbatim>\<open>map\<close> with a callback that may throw: the first
  exception, in element order, ends the traversal.\<close>

fun filter_e :: "('a \<Rightarrow> js_error + bool) \<Rightarrow> 'a list \<Rightarrow> js_error + 'a list" where
  "filter_e p [] = Inr []"
| "filter_e p (x # xs) =
     ebind (p x) (\<lambda>b. ebind (filter_e p xs) (\<lambda>ys. Inr (if b then x # ys else ys)))"

fun map_e :: "('a \<Rightarrow> js_error + 'b) \<Rightarrow> 'a list \<Rightarrow> js_error + 'b list" where
  "map_e f [] = Inr []"
| "map_e f (x # xs) = ebind (f x) (\<lambda>y. ebind (map_e f xs) (\<lambda>ys. Inr (y # ys)))"

text \<open>The values \<^verbatim>\<open>JSON.parse\<close> can return.  Numbers are IEEE doubles in the source; only
  their truthiness is used here, so they are read as reals.\<close>

datatype json =
    JNull
  | JBool bool
  | JNum real
  | JStr jsstring
  | JArr "json list"
  | JObj "(jsstring \<times> json) list"

text \<open>Reading one of the properties \<^verbatim>\<open>term\<close>, \<^verbatim>\<open>severity\<close>, \<^verbatim>\<open>explanation\<close>, \<^verbatim>\<open>title\<close>,
  \<^verbatim>\<open>url\<close>, \<^verbatim>\<open>relevance\<close> (none of them is inherited from a prototype): on \<^verbatim>\<open>null\<close> it throws,
  on an object it is the own property or \<^verbatim>\<open>undefined\<close> (\<open>None\<close>), on any other value it is
  \<^verbatim>\<open>undefined\<close>.\<close>

fun js_get :: "json \<Rightarrow> jsstring \<Rightarrow> js_error + json option" where
  "js_get JNull k = Inl TypeError"
| "js_get (JObj kvs) k = Inr (map_of kvs k)"
| "js_get (JBool b) k = Inr None"
| "js_get (JNum r) k = Inr None"
| "js_get (JStr s) k = Inr None"
| "js_get (JArr xs) k = Inr None"

fun truthy :: "json option \<Rightarrow> bool" where
  "truthy None = False"
| "truthy (Some JNull) = False"
| "truthy (Some (JBool b)) = b"
| "truthy (Some (JNum r)) = (r \<noteq> 0)"
| "truthy (Some (JStr s)) = (s \<noteq> [])"
| "truthy (Some (JArr xs)) = True"
| "truthy (Some (JObj kvs)) = True"

text \<open>White space and line terminators, as \<^verbatim>\<open>String.prototype.trim\<close> and the regular
  expression class \<^verbatim>\<open>\s\<close> read them.\<close>

definition js_whitespace :: "nat \<Rightarrow> bool" where
  "js_whitespace c \<longleftrightarrow>
     c \<in> {9, 10, 11, 12, 13, 32, 160, 5760, 8232, 8233, 8239, 8287, 12288, 65279}
     \<or> (8192 \<le> c \<and> c \<le> 8202)"

definition js_trim :: "jsstring \<Rightarrow> jsstring" where
  "js_trim s = rev (dropWhile js_whitespace (rev (dropWhile js_whitespace s)))"

text \<open>\<^verbatim>\<open>String.prototype.toLowerCase\<close> on the letters A to Z.  The built-in also lowers capitals
  outside ASCII; none of them lowers to a letter of \<^verbatim>\<open>high\<close>, \<^verbatim>\<open>moderate\<close> or \<^verbatim>\<open>low\<close>, the
  only words the result is compared with.\<close>

definition js_toLowerCase :: "jsstring \<Rightarrow> jsstring" where
  "js_toLowerCase s = map (\<lambda>c. if 65 \<le> c \<and> c \<le> 90 then c + 32 else c) s"

text \<open>The built-ins whose algorithms are not part of the repository are parameters of the
  model: number formatting, the URL parser behind \<^verbatim>\<open>new URL(s)\<close> (true when it does not
  throw) and \<^verbatim>\<open>JSON.parse\<close> (\<open>None\<close> when it throws a SyntaxError).\<close>

record builtins =
  Number_toString :: "real \<Rightarrow> jsstring"
  URL_parses :: "jsstring \<Rightarrow> bool"
  JSON_parse :: "jsstring \<Rightarrow> json option"

text \<open>\<^verbatim>\<open>String(v)\<close>.  An array is joined with commas, \<^verbatim>\<open>null\<close> elements giving the empty
  string; a plain object gives \<^verbatim>\<open>[object Object]\<close>, unless it has an own \<^verbatim>\<open>toString\<close>
  property, which after \<^verbatim>\<open>JSON.parse\<close> is never callable, so the conversion throws.\<close>

fun js_String :: "builtins \<Rightarrow> json \<Rightarrow> js_error + jsstring"
  and js_join :: "builtins \<Rightarrow> json list \<Rightarrow> js_error + jsstring" where
  "js_String B JNull = Inr (js ''null'')"
| "js_String B (JBool b) = Inr (if b then js ''true'' else js ''false'')"
| "js_String B (JNum r) = Inr (Number_toString B r)"
| "js_String B (JStr s) = Inr s"
| "js_String B (JArr xs) = js_join B xs"
| "js_String B (JObj kvs) =
     (if map_of kvs (js ''toString'') \<noteq> None then Inl TypeError
      else Inr (js ''[object Object]''))"
| "js_join B [] = Inr []"
| "js_join B (x # xs) =
     ebind (if x = JNull then Inr [] else js_String B x) (\<lambda>a.
       if xs = [] then Inr a
       else ebind (js_join B xs) (\<lambda>b. Inr (a @ js '','' @ b)))"

section \<open>Analysis orchestrator: validation of parsed items (langchain-api-services.ts)\<close>

record RiskyTerm =
  rt_term :: jsstring
  rt_severity :: jsstring
  rt_explanation :: jsstring

record GovernmentArticle =
  title :: jsstring
  url :: jsstring
  relevance :: jsstring

text \<open>The filter callback \<^verbatim>\<open>term => term.term && term.severity && term.explanation\<close>.\<close>

definition riskyTerm_present :: "json \<Rightarrow> js_error + bool" where
  "riskyTerm_present t =
     ebind (js_get t (js ''term'')) (\<lambda>a.
       if \<not> truthy a then Inr False
       else ebind (js_get t (js ''severity'')) (\<lambda>b.
         if \<not> truthy b then Inr False
         else ebind (js_get t (js ''explanation'')) (\<lambda>c. Inr (truthy c))))"

text \<open>\<^verbatim>\<open>v?.toLowerCase()\<close>: \<^verbatim>\<open>undefined\<close> when \<open>v\<close> is \<^verbatim>\<open>null\<close> or \<^verbatim>\<open>undefined\<close>, the lowered
  string when \<open>v\<close> is a string; any other value has no such method and the call throws.\<close>

fun opt_toLowerCase :: "json option \<Rightarrow> js_error + jsstring option" where
  "opt_toLowerCase None = Inr None"
| "opt_toLowerCase (Some JNull) = Inr None"
| "opt_toLowerCase (Some (JStr s)) = Inr (Some (js_toLowerCase s))"
| "opt_toLowerCase (Some (JBool b)) = Inl TypeError"
| "opt_toLowerCase (Some (JNum r)) = Inl TypeError"
| "opt_toLowerCase (Some (JArr xs)) = Inl TypeError"
| "opt_toLowerCase (Some (JObj kvs)) = Inl TypeError"

text \<open>\<^verbatim>\<open>v.toLowerCase()\<close> without the optional chain: it also throws on \<^verbatim>\<open>null\<close> and
  \<^verbatim>\<open>undefined\<close>.\<close>

definition call_toLowerCase :: "json option \<Rightarrow> js_error + jsstring" where
  "call_toLowerCase v =
     ebind (opt_toLowerCase v) (\<lambda>l. case l of None \<Rightarrow> Inl TypeError | Some s \<Rightarrow> Inr s)"

definition String_of :: "builtins \<Rightarrow> json option \<Rightarrow> js_error + jsstring" where
  "String_of B v = (case v of None \<Rightarrow> Inr (js ''undefined'') | Some x \<Rightarrow> js_String B x)"

text \<open>The map callback of \<^verbatim>\<open>validateRiskyTerms\<close>; the object literal evaluates its
  properties in the order term, severity, explanation.\<close>

definition riskyTerm_sanitize :: "builtins \<Rightarrow> json \<Rightarrow> js_error + RiskyTerm" where
  "riskyTerm_sanitize B t =
     ebind (js_get t (js ''term'')) (\<lambda>a.
     ebind (String_of B a) (\<lambda>a'.
     ebind (js_get t (js ''severity'')) (\<lambda>s.
     ebind (opt_toLowerCase s) (\<lambda>l.
     ebind (if l \<in> Some ` {js ''high'', js ''moderate'', js ''low''}
            then call_toLowerCase s
            else Inr (js ''moderate'')) (\<lambda>sev.
     ebind (js_get t (js ''explanation'')) (\<lambda>e.
     ebind (String_of B e) (\<lambda>e'.
       Inr \<lparr>rt_term = js_trim a', rt_severity = sev, rt_explanation = js_trim e'\<rparr>)))))))"

definition validateRiskyTerms :: "builtins \<Rightarrow> json \<Rightarrow> js_error + RiskyTerm list" where
  "validateRiskyTerms B terms =
     (case terms of
        JArr items \<Rightarrow> ebind (filter_e riskyTerm_present items) (map_e (riskyTerm_sanitize B))
      | _ \<Rightarrow> Inr [])"

text \<open>The filter callback of \<^verbatim>\<open>validateGovernmentArticles\<close>: the three fields must be truthy
  and \<^verbatim>\<open>new URL(article.url)\<close> must not throw (its argument is converted to a string first;
  whatever it throws is caught and drops the item).\<close>

definition article_ok :: "builtins \<Rightarrow> json \<Rightarrow> js_error + bool" where
  "article_ok B a =
     ebind (js_get a (js ''title'')) (\<lambda>t.
       if \<not> truthy t then Inr False
       else ebind (js_get a (js ''url'')) (\<lambda>u.
         if \<not> truthy u then Inr False
         else ebind (js_get a (js ''relevance'')) (\<lambda>r.
           if \<not> truthy r then Inr False
           else Inr (case ebind (js_get a (js ''url'')) (String_of B) of
                       Inl e \<Rightarrow> False
                     | Inr s \<Rightarrow> URL_parses B s))))"

definition article_sanitize :: "builtins \<Rightarrow> json \<Rightarrow> js_error + GovernmentArticle" where
  "article_sanitize B a =
     ebind (js_get a (js ''title'')) (\<lambda>t.
     ebind (String_of B t) (\<lambda>t'.
     ebind (js_get a (js ''url'')) (\<lambda>u.
     ebind (String_of B u) (\<lambda>u'.
     ebind (js_get a (js ''relevance'')) (\<lambda>r.
     ebind (String_of B r) (\<lambda>r'.
       Inr \<lparr>title = js_trim t', url = js_trim u', relevance = js_trim r'\<rparr>))))))"

definition validateGovernmentArticles :: "builtins \<Rightarrow> json \<Rightarrow> js_error + GovernmentArticle list" where
  "validateGovernmentArticles B articles =
     (case articles of
        JArr items \<Rightarrow> ebind (filter_e (article_ok B) items) (map_e (article_sanitize B))
      | _ \<Rightarrow> Inr [])"


subsection \<open>parseJSONResponse\<close>

definition starts_with :: "jsstring \<Rightarrow> jsstring \<Rightarrow> bool" where
  "starts_with p s \<longleftrightarrow> take (length p) s = p"

text \<open>The first regular expression of \<^verbatim>\<open>parseJSONResponse\<close>: three backquotes (code unit 96),
  an optional \<^verbatim>\<open>json\<close>, white space, the group \<^verbatim>\<open>(\[.*?\])\<close>, white space, three
  backquotes, with the flag that lets the dot match every code unit.  The lazy star of the
  group stops at the first \<^verbatim>\<open>]\<close> (93) that white space and a closing fence follow; the
  greedy \<^verbatim>\<open>\s*\<close> never needs to give back, since what follows it is not white space.
  The result is the text of the group.\<close>

fun fence_body :: "jsstring \<Rightarrow> jsstring \<Rightarrow> jsstring option" where
  "fence_body acc [] = None"
| "fence_body acc (c # cs) =
     (if c = 93 \<and> starts_with [96, 96, 96] (dropWhile js_whitespace cs) then Some (acc @ [c])
      else fence_body (acc @ [c]) cs)"

definition fence_open :: "jsstring \<Rightarrow> jsstring option" where
  "fence_open r =
     (case dropWhile js_whitespace r of
        [] \<Rightarrow> None
      | c # cs \<Rightarrow> if c = 91 then fence_body [91] cs else None)"

definition fence_at :: "jsstring \<Rightarrow> jsstring option" where
  "fence_at s =
     (if starts_with [96, 96, 96] s then
        (let r = drop 3 s in
         case (if starts_with (js ''json'') r then fence_open (drop 4 r) else None) of
           Some g \<Rightarrow> Some g
         | None \<Rightarrow> fence_open r)
      else None)"

fun match_code_block :: "jsstring \<Rightarrow> jsstring option" where
  "match_code_block [] = None"
| "match_code_block (c # cs) =
     (case fence_at (c # cs) of Some g \<Rightarrow> Some g | None \<Rightarrow> match_code_block cs)"

text \<open>The second regular expression, \<^verbatim>\<open>\[\s*\{.*?\}\s*\]\<close> with the same flag: the leftmost
  \<^verbatim>\<open>[\<close> (91) that white space and \<^verbatim>\<open>{\<close> (123) follow, up to the first \<^verbatim>\<open>}\<close> (125) that white
  space and \<^verbatim>\<open>]\<close> follow.  The result is the whole match.\<close>

fun array_body :: "jsstring \<Rightarrow> jsstring \<Rightarrow> jsstring option" where
  "array_body acc [] = None"
| "array_body acc (c # cs) =
     (if c = 125 \<and> starts_with [93] (dropWhile js_whitespace cs)
      then Some (acc @ [c] @ takeWhile js_whitespace cs @ [93])
      else array_body (acc @ [c]) cs)"

definition array_at :: "jsstring \<Rightarrow> jsstring option" where
  "array_at s =
     (case s of
        [] \<Rightarrow> None
      | c # cs \<Rightarrow>
          if c = 91 then
            (case dropWhile js_whitespace cs of
               [] \<Rightarrow> None
             | d # ds \<Rightarrow>
                 if d = 123 then array_body ([91] @ takeWhile js_whitespace cs @ [123]) ds
                 else None)
          else None)"

fun match_json_array :: "jsstring \<Rightarrow> jsstring option" where
  "match_json_array [] = None"
| "match_json_array (c # cs) =
     (case array_at (c # cs) of Some m \<Rightarrow> Some m | None \<Rightarrow> match_json_array cs)"

definition JSON_parse_e :: "builtins \<Rightarrow> jsstring \<Rightarrow> js_error + json" where
  "JSON_parse_e B s = (case JSON_parse B s of None \<Rightarrow> Inl SyntaxError | Some v \<Rightarrow> Inr v)"

definition try_catch :: "js_error + 'a \<Rightarrow> (js_error \<Rightarrow> js_error + 'a) \<Rightarrow> js_error + 'a" where
  "try_catch m h = (case m of Inl e \<Rightarrow> h e | Inr x \<Rightarrow> Inr x)"

text \<open>The outer \<^verbatim>\<open>try\<close> holds the direct parse; its \<^verbatim>\<open>catch\<close> holds one inner \<^verbatim>\<open>try\<close>
  around both extraction attempts, whose \<^verbatim>\<open>catch\<close> returns the fallback.\<close>

definition parseJSONResponse :: "builtins \<Rightarrow> jsstring \<Rightarrow> json \<Rightarrow> js_error + json" where
  "parseJSONResponse B response fallback =
     try_catch (JSON_parse_e B response) (\<lambda>e1.
       try_catch
         (case match_code_block response of
            Some g \<Rightarrow> JSON_parse_e B g
          | None \<Rightarrow>
              (case match_json_array response of
                 Some m \<Rightarrow> JSON_parse_e B m
               | None \<Rightarrow> Inr fallback))
         (\<lambda>e2. Inr fallback))"

section \<open>External collaborators and their calls\<close>

datatype template =
    simplificationTemplate
  | riskyTermsTemplate
  | governmentArticlesTemplate
  | followupTemplate
  | enhancedFollowupTemplate
  | legacyFollowupPrompt

datatype chunk_type = simplified | risky_terms | government_articles | original

record chunk_metadata =
  chunkIndex :: nat
  source :: jsstring
  type :: chunk_type
  relevanceScore :: "real option"

record ClauseChunk =
  content :: jsstring
  metadata :: chunk_metadata

record Document =
  pageContent :: jsstring
  doc_metadata :: chunk_metadata

text \<open>Every call that leaves the process is recorded, with the API key of the instance that
  makes it: reading the credentials store, constructing a model or an embeddings instance,
  a model request (a prompt template with its variables), the embedding of the documents of
  a new vector store, and the embedding of a question for a similarity query of \<open>k\<close>
  candidates.  Console output, toasts and the best-effort insert into the history table are
  left out: none of them changes a result.\<close>

datatype event =
    ReadApiKey
  | NewLLM jsstring
  | NewEmbeddings jsstring
  | ModelCall jsstring template "(string \<times> jsstring) list"
  | EmbedDocuments jsstring "jsstring list"
  | EmbedQuery jsstring jsstring nat

text \<open>The collaborators are parameters: the key the credentials store returns (\<open>None\<close> for
  \<^verbatim>\<open>null\<close>), whether the provider library's constructors accept a key, the model's response
  (\<open>None\<close> when the request is rejected), the text splitter, whether embedding a list of
  texts succeeds, and the similarity query of the in-memory vector store (\<open>None\<close> when
  embedding the question is rejected).\<close>

record services =
  getGeminiApiKey :: "jsstring option"
  llm_accepts :: "jsstring \<Rightarrow> bool"
  embeddings_accepts :: "jsstring \<Rightarrow> bool"
  invoke :: "jsstring \<Rightarrow> template \<Rightarrow> (string \<times> jsstring) list \<Rightarrow> jsstring option"
  splitText :: "jsstring \<Rightarrow> jsstring list"
  embedDocuments :: "jsstring \<Rightarrow> jsstring list \<Rightarrow> bool"
  similaritySearchWithScore ::
    "jsstring \<Rightarrow> Document list \<Rightarrow> jsstring \<Rightarrow> nat \<Rightarrow> (Document \<times> real) list option"

type_synonym 'a io = "(js_error + 'a) \<times> event list"

definition io_return :: "'a \<Rightarrow> 'a io" where
  "io_return x = (Inr x, [])"

definition io_throw :: "js_error \<Rightarrow> 'a io" where
  "io_throw e = (Inl e, [])"

definition io_lift :: "js_error + 'a \<Rightarrow> 'a io" where
  "io_lift m = (m, [])"

definition io_bind :: "'a io \<Rightarrow> ('a \<Rightarrow> 'b io) \<Rightarrow> 'b io" where
  "io_bind m f =
     (case m of
        (Inl e, evs) \<Rightarrow> (Inl e, evs)
      | (Inr x, evs) \<Rightarrow> (case f x of (r, evs') \<Rightarrow> (r, evs @ evs')))"

definition io_catch :: "'a io \<Rightarrow> (js_error \<Rightarrow> 'a io) \<Rightarrow> 'a io" where
  "io_catch m h =
     (case m of
        (Inl e, evs) \<Rightarrow> (case h e of (r, evs') \<Rightarrow> (r, evs @ evs'))
      | (Inr x, evs) \<Rightarrow> (Inr x, evs))"

text \<open>\<^verbatim>\<open>Promise.all\<close> over calls that have all been started: every call is issued, and the
  result is rejected when one of them is (the rejection reported is the first in list
  order; all rejections of one batch are of the same class here).\<close>

definition promise_all :: "'a io list \<Rightarrow> 'a list io" where
  "promise_all ms = (map_e id (map fst ms), concat (map snd ms))"

definition promise_all3 :: "'a io \<Rightarrow> 'b io \<Rightarrow> 'c io \<Rightarrow> ('a \<times> 'b \<times> 'c) io" where
  "promise_all3 a b c =
     (ebind (fst a) (\<lambda>x. ebind (fst b) (\<lambda>y. ebind (fst c) (\<lambda>z. Inr (x, y, z)))),
      snd a @ snd b @ snd c)"

definition readApiKey :: "services \<Rightarrow> jsstring io" where
  "readApiKey S =
     (case getGeminiApiKey S of
        None \<Rightarrow> (Inl (Error ''Gemini API key not found''), [ReadApiKey])
      | Some k \<Rightarrow>
          if k = [] then (Inl (Error ''Gemini API key not found''), [ReadApiKey])
          else (Inr k, [ReadApiKey]))"

definition createLLMInstance :: "services \<Rightarrow> jsstring \<Rightarrow> unit io" where
  "createLLMInstance S apiKey =
     (if llm_accepts S apiKey then Inr () else Inl ProviderError, [NewLLM apiKey])"

definition chain_invoke ::
  "services \<Rightarrow> jsstring \<Rightarrow> template \<Rightarrow> (string \<times> jsstring) list \<Rightarrow> jsstring io" where
  "chain_invoke S apiKey t vars =
     (case invoke S apiKey t vars of None \<Rightarrow> Inl ProviderError | Some r \<Rightarrow> Inr r,
      [ModelCall apiKey t vars])"

section \<open>Analysis orchestrator (langchain-api-services.ts)\<close>

record AnalysisResponse =
  simplifiedExplanation :: jsstring
  riskyTerms :: "RiskyTerm list"
  governmentArticles :: "GovernmentArticle list"

record FollowupResponse =
  answer :: jsstring

text \<open>\<^verbatim>\<open>analyzeClause\<close>: its \<^verbatim>\<open>catch\<close> rethrows what it caught, so it adds nothing to the
  result.\<close>

definition analyzeClause :: "builtins \<Rightarrow> services \<Rightarrow> jsstring \<Rightarrow> AnalysisResponse io" where
  "analyzeClause B S clause =
     io_bind (readApiKey S) (\<lambda>apiKey.
     io_bind (createLLMInstance S apiKey) (\<lambda>llm.
     io_bind (promise_all3
        (chain_invoke S apiKey simplificationTemplate [(''clause'', clause)])
        (chain_invoke S apiKey riskyTermsTemplate [(''clause'', clause)])
        (chain_invoke S apiKey governmentArticlesTemplate [(''clause'', clause)]))
       (\<lambda>(simplifiedExplanation', riskyTermsResponse, governmentArticlesResponse).
     io_lift
       (ebind (parseJSONResponse B riskyTermsResponse (JArr [])) (\<lambda>riskyTermsData.
        ebind (parseJSONResponse B governmentArticlesResponse (JArr [])) (\<lambda>governmentArticlesData.
        ebind (validateRiskyTerms B riskyTermsData) (\<lambda>rts.
        ebind (validateGovernmentArticles B governmentArticlesData) (\<lambda>arts.
          Inr \<lparr>simplifiedExplanation = js_trim simplifiedExplanation',
               riskyTerms = rts,
               governmentArticles = arts\<rparr>))))))))"

definition submitFollowupQuestion_langchain ::
  "services \<Rightarrow> jsstring \<Rightarrow> jsstring \<Rightarrow> FollowupResponse io" where
  "submitFollowupQuestion_langchain S question originalClause =
     io_bind (readApiKey S) (\<lambda>apiKey.
     io_bind (createLLMInstance S apiKey) (\<lambda>llm.
     io_bind (chain_invoke S apiKey followupTemplate
                [(''question'', question), (''originalClause'', originalClause)]) (\<lambda>a.
       io_return \<lparr>answer = js_trim a\<rparr>)))"

definition analyzeBatchClauses ::
  "builtins \<Rightarrow> services \<Rightarrow> jsstring list \<Rightarrow> AnalysisResponse list io" where
  "analyzeBatchClauses B S clauses =
     io_bind (readApiKey S) (\<lambda>apiKey.
       promise_all (map (analyzeClause B S) clauses))"

text \<open>The follow-up of the older service file (api-services.ts): one request built from a
  single prompt string, sent with \<^verbatim>\<open>fetch\<close>; no model instance is constructed.\<close>

definition submitFollowupQuestion_traditional ::
  "services \<Rightarrow> jsstring \<Rightarrow> jsstring \<Rightarrow> FollowupResponse io" where
  "submitFollowupQuestion_traditional S question originalClause =
     io_bind (readApiKey S) (\<lambda>apiKey.
     io_bind (chain_invoke S apiKey legacyFollowupPrompt
                [(''originalClause'', originalClause), (''question'', question)]) (\<lambda>a.
       io_return \<lparr>answer = js_trim a\<rparr>))"


section \<open>Embedding index and retriever (semantic-search.ts)\<close>

subsection \<open>generateCacheKey\<close>

text \<open>\<^verbatim>\<open>btoa\<close>: Base64 of a string of code units below 256; any larger code unit makes it
  throw.\<close>

definition b64_char :: "nat \<Rightarrow> nat" where
  "b64_char n =
     (if n < 26 then 65 + n
      else if n < 52 then 97 + (n - 26)
      else if n < 62 then 48 + (n - 52)
      else if n = 62 then 43 else 47)"

fun b64_encode :: "nat list \<Rightarrow> nat list" where
  "b64_encode (a # b # c # rest) =
     [b64_char (a div 4), b64_char ((a mod 4) * 16 + b div 16),
      b64_char ((b mod 16) * 4 + c div 64), b64_char (c mod 64)] @ b64_encode rest"
| "b64_encode [a, b] =
     [b64_char (a div 4), b64_char ((a mod 4) * 16 + b div 16), b64_char ((b mod 16) * 4), 61]"
| "b64_encode [a] = [b64_char (a div 4), b64_char ((a mod 4) * 16), 61, 61]"
| "b64_encode [] = []"

definition btoa :: "jsstring \<Rightarrow> js_error + jsstring" where
  "btoa s = (if \<exists>c \<in> set s. 255 < c then Inl InvalidCharacterError else Inr (b64_encode s))"

text \<open>\<^verbatim>\<open>JSON.stringify\<close> of the analysis object, whose properties were created in the order
  \<^verbatim>\<open>simplifiedExplanation\<close>, \<^verbatim>\<open>riskyTerms\<close>, \<^verbatim>\<open>governmentArticles\<close> by \<^verbatim>\<open>analyzeClause\<close>.
  A string is quoted (34) with the short escapes after a backslash (92), \<^verbatim>\<open>\u00xx\<close> for the
  other control characters and \<^verbatim>\<open>\udxxx\<close> for a surrogate that has no partner.\<close>

definition hex_digit :: "nat \<Rightarrow> nat" where
  "hex_digit d = (if d < 10 then 48 + d else 87 + d)"

definition u_escape :: "nat \<Rightarrow> jsstring" where
  "u_escape c =
     [92, 117, hex_digit (c div 4096 mod 16), hex_digit (c div 256 mod 16),
      hex_digit (c div 16 mod 16), hex_digit (c mod 16)]"

definition lead_surrogate :: "nat \<Rightarrow> bool" where
  "lead_surrogate c \<longleftrightarrow> 55296 \<le> c \<and> c \<le> 56319"

definition trail_surrogate :: "nat \<Rightarrow> bool" where
  "trail_surrogate c \<longleftrightarrow> 56320 \<le> c \<and> c \<le> 57343"

fun json_quote_body :: "jsstring \<Rightarrow> jsstring" where
  "json_quote_body [] = []"
| "json_quote_body (c # cs) =
     (if c = 8 then [92, 98] @ json_quote_body cs
      else if c = 9 then [92, 116] @ json_quote_body cs
      else if c = 10 then [92, 110] @ json_quote_body cs
      else if c = 12 then [92, 102] @ json_quote_body cs
      else if c = 13 then [92, 114] @ json_quote_body cs
      else if c = 34 then [92, 34] @ json_quote_body cs
      else if c = 92 then [92, 92] @ json_quote_body cs
      else if c < 32 then u_escape c @ json_quote_body cs
      else if lead_surrogate c then
        (case cs of
           [] \<Rightarrow> u_escape c
         | d # ds \<Rightarrow>
             if trail_surrogate d then [c, d] @ json_quote_body ds
             else u_escape c @ json_quote_body cs)
      else if trail_surrogate c then u_escape c @ json_quote_body cs
      else c # json_quote_body cs)"

definition json_quote :: "jsstring \<Rightarrow> jsstring" where
  "json_quote s = [34] @ json_quote_body s @ [34]"

text \<open>\<^verbatim>\<open>Array.prototype.join\<close> on strings.\<close>

fun join :: "jsstring \<Rightarrow> jsstring list \<Rightarrow> jsstring" where
  "join sep [] = []"
| "join sep [x] = x"
| "join sep (x # y # ys) = x @ sep @ join sep (y # ys)"

definition json_member :: "string \<Rightarrow> jsstring \<Rightarrow> jsstring" where
  "json_member k v = [34] @ js k @ [34, 58] @ v"

definition stringify_riskyTerm :: "RiskyTerm \<Rightarrow> jsstring" where
  "stringify_riskyTerm t =
     [123] @ join [44]
       [json_member ''term'' (json_quote (rt_term t)),
        json_member ''severity'' (json_quote (rt_severity t)),
        json_member ''explanation'' (json_quote (rt_explanation t))] @ [125]"

definition stringify_article :: "GovernmentArticle \<Rightarrow> jsstring" where
  "stringify_article a =
     [123] @ join [44]
       [json_member ''title'' (json_quote (title a)),
        json_member ''url'' (json_quote (url a)),
        json_member ''relevance'' (json_quote (relevance a))] @ [125]"

definition JSON_stringify :: "AnalysisResponse \<Rightarrow> jsstring" where
  "JSON_stringify d =
     [123] @ join [44]
       [json_member ''simplifiedExplanation'' (json_quote (simplifiedExplanation d)),
        json_member ''riskyTerms'' ([91] @ join [44] (map stringify_riskyTerm (riskyTerms d)) @ [93]),
        json_member ''governmentArticles''
          ([91] @ join [44] (map stringify_article (governmentArticles d)) @ [93])] @ [125]"

text \<open>The key: Base64 of the first 100 code units of the clause, an underscore, and Base64
  of the first 50 code units of the stringified analysis (empty when no analysis is
  given).\<close>

definition generateCacheKey :: "jsstring \<Rightarrow> AnalysisResponse option \<Rightarrow> js_error + jsstring" where
  "generateCacheKey originalClause analysisData =
     ebind (btoa (take 100 originalClause)) (\<lambda>baseKey.
     ebind (case analysisData of
              None \<Rightarrow> Inr []
            | Some d \<Rightarrow> btoa (take 50 (JSON_stringify d))) (\<lambda>analysisKey.
       Inr (baseKey @ js ''_'' @ analysisKey)))"

subsection \<open>createClauseVectorStore\<close>

record Embeddings =
  apiKey :: jsstring
  model :: jsstring

text \<open>A cached entry.  Entries are objects, compared by identity in the source; \<open>handle\<close> is
  that identity, drawn from a counter when the entry is created.\<close>

record VectorStoreData =
  vectorStore :: "Document list"
  chunks :: "ClauseChunk list"
  embeddings :: Embeddings
  handle :: nat

text \<open>The module's \<^verbatim>\<open>Map\<close>, in insertion order, and the counter of entries created so far.
  \<^verbatim>\<open>Map.prototype.set\<close> is \<^const>\<open>AList.update\<close> (a new key goes to the end, an old key keeps its
  place), \<^verbatim>\<open>delete\<close> is \<^const>\<open>AList.delete\<close>.\<close>

record cache_state =
  vectorStoreCache :: "(jsstring \<times> VectorStoreData) list"
  next_handle :: nat

definition empty_cache :: cache_state where
  "empty_cache = \<lparr>vectorStoreCache = [], next_handle = 0\<rparr>"

fun decimal :: "nat \<Rightarrow> jsstring" where
  "decimal n = (if n < 10 then [48 + n] else decimal (n div 10) @ [48 + n mod 10])"

declare decimal.simps [simp del]

definition mk_chunk :: "jsstring \<Rightarrow> nat \<Rightarrow> jsstring \<Rightarrow> chunk_type \<Rightarrow> ClauseChunk" where
  "mk_chunk c i src t =
     \<lparr>content = c,
      metadata = \<lparr>chunkIndex = i, source = src, type = t, relevanceScore = None\<rparr>\<rparr>"

definition build_chunks :: "services \<Rightarrow> jsstring \<Rightarrow> AnalysisResponse \<Rightarrow> ClauseChunk list" where
  "build_chunks S originalClause analysisData =
     map (\<lambda>(index, chunk). mk_chunk chunk index (js ''original_clause'') original)
       (enumerate 0 (splitText S originalClause))
     @ (if simplifiedExplanation analysisData \<noteq> [] then
          map (\<lambda>(index, chunk). mk_chunk chunk index (js ''simplified_explanation'') simplified)
            (enumerate 0 (splitText S (simplifiedExplanation analysisData)))
        else [])
     @ map (\<lambda>(index, t).
          mk_chunk
            (js ''Risky Term: '' @ [34] @ rt_term t @ [34] @ js '' ('' @ rt_severity t
               @ js '' severity) - '' @ rt_explanation t)
            index (js ''risky_term_'' @ rt_term t) risky_terms)
         (enumerate 0 (riskyTerms analysisData))
     @ map (\<lambda>(index, article).
          mk_chunk
            (js ''Legal Article: '' @ [34] @ title article @ [34] @ js '' - '' @ relevance article)
            index (js ''gov_article_'' @ decimal index) government_articles)
         (enumerate 0 (governmentArticles analysisData))"

definition to_document :: "ClauseChunk \<Rightarrow> Document" where
  "to_document c = \<lparr>pageContent = content c, doc_metadata = metadata c\<rparr>"

definition evict_oldest ::
  "(jsstring \<times> VectorStoreData) list \<Rightarrow> (jsstring \<times> VectorStoreData) list" where
  "evict_oldest m =
     (if 10 < length m then
        (case m of [] \<Rightarrow> m | (firstKey, v) # rest \<Rightarrow> AList.delete firstKey m)
      else m)"

text \<open>The key is computed before the \<^verbatim>\<open>try\<close>, so an exception of \<^verbatim>\<open>btoa\<close> leaves as it
  is; whatever the \<^verbatim>\<open>try\<close> block throws is replaced by one fixed error.\<close>

definition createClauseVectorStore ::
  "services \<Rightarrow> jsstring \<Rightarrow> AnalysisResponse \<Rightarrow> jsstring \<Rightarrow> cache_state
     \<Rightarrow> VectorStoreData io \<times> cache_state" where
  "createClauseVectorStore S originalClause analysisData key st =
     (case generateCacheKey originalClause (Some analysisData) of
        Inl e \<Rightarrow> ((Inl e, []), st)
      | Inr cacheKey \<Rightarrow>
          (case map_of (vectorStoreCache st) cacheKey of
             Some cached \<Rightarrow> ((Inr cached, []), st)
           | None \<Rightarrow>
               if \<not> embeddings_accepts S key then
                 ((Inl (Error ''Failed to create vector store for semantic search''),
                   [NewEmbeddings key]), st)
               else
                 (let cs = build_chunks S originalClause analysisData;
                      documents = map to_document cs
                  in if \<not> embedDocuments S key (map pageContent documents) then
                       ((Inl (Error ''Failed to create vector store for semantic search''),
                         [NewEmbeddings key, EmbedDocuments key (map pageContent documents)]), st)
                     else
                       (let storeData =
                              \<lparr>vectorStore = documents, chunks = cs,
                               embeddings = \<lparr>apiKey = key, model = js ''embedding-001''\<rparr>,
                               handle = next_handle st\<rparr>
                        in ((Inr storeData,
                             [NewEmbeddings key, EmbedDocuments key (map pageContent documents)]),
                            \<lparr>vectorStoreCache =
                               evict_oldest (AList.update cacheKey storeData (vectorStoreCache st)),
                             next_handle = Suc (next_handle st)\<rparr>)))))"


subsection \<open>retrieveRelevantContext\<close>

text \<open>\<open>maxResults\<close> counts results, so it is a natural number; an absent option is \<open>None\<close>
  and takes the default of the destructuring (3, 0.7, true).  Scores are IEEE doubles in
  the source; only their order is used, so they are read as reals.\<close>

record RetrievalOptions =
  maxResults :: "nat option"
  relevanceThreshold :: "real option"
  includeMetadata :: "bool option"

record RetrievalResult =
  relevantChunks :: "ClauseChunk list"
  contextSummary :: jsstring
  totalChunks :: nat
  averageRelevance :: real

fun type_name :: "chunk_type \<Rightarrow> string" where
  "type_name simplified = ''simplified''"
| "type_name risky_terms = ''risky_terms''"
| "type_name government_articles = ''government_articles''"
| "type_name original = ''original''"

definition js_toUpperCase :: "jsstring \<Rightarrow> jsstring" where
  "js_toUpperCase s = map (\<lambda>c. if 97 \<le> c \<and> c \<le> 122 then c - 32 else c) s"

text \<open>The callback of the \<^verbatim>\<open>map\<close> over the search results: the first chunk with the same
  text, with the score written into a copy of its metadata, or a chunk made up from the
  document when none has that text.\<close>

definition attach_score :: "VectorStoreData \<Rightarrow> Document \<times> real \<Rightarrow> ClauseChunk" where
  "attach_score vectorStoreData ds =
     (case ds of (document, score) \<Rightarrow>
        (case find (\<lambda>chunk. content chunk = pageContent document) (chunks vectorStoreData) of
           Some chunkData \<Rightarrow>
             chunkData\<lparr>metadata := (metadata chunkData)\<lparr>relevanceScore := Some score\<rparr>\<rparr>
         | None \<Rightarrow>
             \<lparr>content = pageContent document,
              metadata = \<lparr>chunkIndex = 0, source = js ''unknown'', type = original,
                          relevanceScore = Some score\<rparr>\<rparr>))"

definition summary_line :: "bool \<Rightarrow> nat \<times> ClauseChunk \<Rightarrow> jsstring" where
  "summary_line inc ic =
     (case ic of (index, chunk) \<Rightarrow>
        decimal (index + 1) @ js ''. ''
        @ (if inc then js ''['' @ js_toUpperCase (js (type_name (type (metadata chunk)))) @ js ''] ''
           else [])
        @ content chunk)"

definition score_or_0 :: "ClauseChunk \<Rightarrow> real" where
  "score_or_0 chunk = (case relevanceScore (metadata chunk) of None \<Rightarrow> 0 | Some r \<Rightarrow> r)"

definition similarity_query ::
  "services \<Rightarrow> VectorStoreData \<Rightarrow> jsstring \<Rightarrow> nat \<Rightarrow> (Document \<times> real) list io" where
  "similarity_query S vectorStoreData question k =
     (case similaritySearchWithScore S (apiKey (embeddings vectorStoreData))
             (vectorStore vectorStoreData) question k of
        None \<Rightarrow> Inl ProviderError
      | Some r \<Rightarrow> Inr r,
      [EmbedQuery (apiKey (embeddings vectorStoreData)) question k])"

definition retrieveRelevantContext ::
  "services \<Rightarrow> jsstring \<Rightarrow> VectorStoreData \<Rightarrow> RetrievalOptions \<Rightarrow> RetrievalResult io" where
  "retrieveRelevantContext S question vectorStoreData options =
     (let maxResults' = or_else (maxResults options) 3;
          relevanceThreshold' = or_else (relevanceThreshold options) 0.7;
          includeMetadata' = or_else (includeMetadata options) True
      in io_catch
           (io_bind (similarity_query S vectorStoreData question (maxResults' * 2))
              (\<lambda>searchResults.
                 let relevantResults =
                       map (attach_score vectorStoreData)
                         (take maxResults'
                            (filter (\<lambda>(d, score). relevanceThreshold' \<le> score) searchResults))
                 in io_return
                      \<lparr>relevantChunks = relevantResults,
                       contextSummary =
                         join [10, 10]
                           (map (summary_line includeMetadata') (enumerate 0 relevantResults)),
                       totalChunks = length (chunks vectorStoreData),
                       averageRelevance =
                         (if 0 < length relevantResults
                          then sum_list (map score_or_0 relevantResults)
                                 / real (length relevantResults)
                          else 0)\<rparr>))
           (\<lambda>error.
              let fallbackChunks = take maxResults' (chunks vectorStoreData)
              in io_return
                   \<lparr>relevantChunks = fallbackChunks,
                    contextSummary = join [10, 10] (map content fallbackChunks),
                    totalChunks = length (chunks vectorStoreData),
                    averageRelevance = 0\<rparr>))"

subsection \<open>submitEnhancedFollowupQuestion\<close>

record ContextMetrics =
  chunksUsed :: nat
  metrics_totalChunks :: nat
  metrics_averageRelevance :: real
  tokensSaved :: nat

record EnhancedFollowupResponse =
  enhanced_answer :: jsstring
  relevantContext :: jsstring
  contextMetrics :: ContextMetrics

text \<open>One \<^verbatim>\<open>try\<close> around everything; its \<^verbatim>\<open>catch\<close> replaces whatever was thrown.  The
  truncated subtraction of \<open>nat\<close> is the \<^verbatim>\<open>Math.max(0, ...)\<close> of the source.\<close>

definition submitEnhancedFollowupQuestion ::
  "services \<Rightarrow> jsstring \<Rightarrow> jsstring \<Rightarrow> AnalysisResponse \<Rightarrow> jsstring \<Rightarrow> cache_state
     \<Rightarrow> EnhancedFollowupResponse io \<times> cache_state" where
  "submitEnhancedFollowupQuestion S question originalClause analysisData key st =
     (case createClauseVectorStore S originalClause analysisData key st of (created, st') \<Rightarrow>
        (io_catch
           (io_bind created (\<lambda>vectorStoreData.
            io_bind (retrieveRelevantContext S question vectorStoreData
                       \<lparr>maxResults = Some 3, relevanceThreshold = Some 0.6,
                        includeMetadata = Some True\<rparr>) (\<lambda>contextResult.
            io_bind (createLLMInstance S key) (\<lambda>llm.
            io_bind (chain_invoke S key enhancedFollowupTemplate
                       [(''question'', question),
                        (''relevantContext'', contextSummary contextResult)]) (\<lambda>a.
              io_return
                \<lparr>enhanced_answer = js_trim a,
                 relevantContext = contextSummary contextResult,
                 contextMetrics =
                   \<lparr>chunksUsed = length (relevantChunks contextResult),
                    metrics_totalChunks = totalChunks contextResult,
                    metrics_averageRelevance = averageRelevance contextResult,
                    tokensSaved =
                      length originalClause + length (JSON_stringify analysisData)
                        - length (contextSummary contextResult)\<rparr>\<rparr>)))))
           (\<lambda>error. io_throw (Error ''Failed to process enhanced follow-up question'')),
         st'))"

section \<open>Strategy selector (api-wrapper.ts)\<close>

record APIConfig =
  useLangChain :: bool
  enableBatchProcessing :: bool
  enableAdvancedPrompts :: bool
  enableSemanticSearch :: bool

definition default_apiConfig :: APIConfig where
  "default_apiConfig =
     \<lparr>useLangChain = True, enableBatchProcessing = True, enableAdvancedPrompts = True,
      enableSemanticSearch = True\<rparr>"

text \<open>What \<^verbatim>\<open>localStorage\<close> holds under the configuration key: nothing (or the empty
  string), a text that \<^verbatim>\<open>JSON.parse\<close> rejects or that parses to \<^verbatim>\<open>null\<close>, or an object with
  some of the four toggles (\<open>None\<close> for a toggle it lacks).\<close>

record StoredConfig =
  stored_useLangChain :: "bool option"
  stored_enableBatchProcessing :: "bool option"
  stored_enableAdvancedPrompts :: "bool option"
  stored_enableSemanticSearch :: "bool option"

datatype storage_item = NoItem | Unreadable | Item StoredConfig

text \<open>\<^verbatim>\<open>loadAPIConfig\<close> merges the stored toggles over the module's \<^verbatim>\<open>apiConfig\<close>, assigns the
  merge to \<^verbatim>\<open>apiConfig\<close> and returns it; an exception is logged and leaves \<^verbatim>\<open>apiConfig\<close> as it
  was.  The semantic-search toggle comes from the stored object alone
  (\<^verbatim>\<open>storedConfig.enableSemanticSearch ?? true\<close>).\<close>

definition loadAPIConfig :: "storage_item \<Rightarrow> APIConfig \<Rightarrow> APIConfig" where
  "loadAPIConfig stored apiConfig =
     (case stored of
        NoItem \<Rightarrow> apiConfig
      | Unreadable \<Rightarrow> apiConfig
      | Item storedConfig \<Rightarrow>
          \<lparr>useLangChain = or_else (stored_useLangChain storedConfig) (useLangChain apiConfig),
           enableBatchProcessing =
             or_else (stored_enableBatchProcessing storedConfig) (enableBatchProcessing apiConfig),
           enableAdvancedPrompts =
             or_else (stored_enableAdvancedPrompts storedConfig) (enableAdvancedPrompts apiConfig),
           enableSemanticSearch = or_else (stored_enableSemanticSearch storedConfig) True\<rparr>)"

datatype followup_result = Enhanced EnhancedFollowupResponse | Plain FollowupResponse

definition io_map :: "('a \<Rightarrow> 'b) \<Rightarrow> 'a io \<Rightarrow> 'b io" where
  "io_map f m = io_bind m (\<lambda>x. io_return (f x))"

text \<open>The wrapper's \<^verbatim>\<open>submitFollowupQuestion\<close>.  The first branch is taken when both toggles
  are on and an analysis was passed (\<open>None\<close> is the omitted argument); its API key is the
  empty string literal.  The result comes with the new value of the module's \<^verbatim>\<open>apiConfig\<close>
  and the new state of the vector-store cache.\<close>

definition submitFollowupQuestion ::
  "services \<Rightarrow> storage_item \<Rightarrow> APIConfig \<Rightarrow> jsstring \<Rightarrow> jsstring \<Rightarrow> AnalysisResponse option
     \<Rightarrow> cache_state \<Rightarrow> followup_result io \<times> APIConfig \<times> cache_state" where
  "submitFollowupQuestion S stored apiConfig question originalClause analysisData st =
     (let config = loadAPIConfig stored apiConfig in
      case (if useLangChain config \<and> enableSemanticSearch config then analysisData else None) of
        Some d \<Rightarrow>
          (case submitEnhancedFollowupQuestion S question originalClause d (js []) st of
             (r, st') \<Rightarrow> (io_map Enhanced r, config, st'))
      | None \<Rightarrow>
          if useLangChain config then
            (io_map Plain (submitFollowupQuestion_langchain S question originalClause), config, st)
          else
            (io_map Plain (submitFollowupQuestion_traditional S question originalClause),
             config, st))"

definition processBatchClauses ::
  "builtins \<Rightarrow> services \<Rightarrow> storage_item \<Rightarrow> APIConfig \<Rightarrow> jsstring list
     \<Rightarrow> AnalysisResponse list io \<times> APIConfig" where
  "processBatchClauses B S stored apiConfig clauses =
     (let config = loadAPIConfig stored apiConfig in
      if \<not> useLangChain config then
        (io_throw (Error ''Batch processing is only available with LangChain API''), config)
      else if \<not> enableBatchProcessing config then
        (io_throw (Error ''Batch processing is disabled in configuration''), config)
      else (analyzeBatchClauses B S clauses, config))"


section \<open>Notions used to state the properties\<close>

fun is_embedding_event :: "event \<Rightarrow> bool" where
  "is_embedding_event (NewEmbeddings k) = True"
| "is_embedding_event (EmbedDocuments k ts) = True"
| "is_embedding_event (EmbedQuery k q n) = True"
| "is_embedding_event ReadApiKey = False"
| "is_embedding_event (NewLLM k) = False"
| "is_embedding_event (ModelCall k t vars) = False"

fun is_model_call :: "event \<Rightarrow> bool" where
  "is_model_call (ModelCall k t vars) = True"
| "is_model_call ReadApiKey = False"
| "is_model_call (NewLLM k) = False"
| "is_model_call (NewEmbeddings k) = False"
| "is_model_call (EmbedDocuments k ts) = False"
| "is_model_call (EmbedQuery k q n) = False"

text \<open>The key an instance was constructed with, for the two constructor events.\<close>

fun constructed_with :: "event \<Rightarrow> jsstring option" where
  "constructed_with (NewLLM k) = Some k"
| "constructed_with (NewEmbeddings k) = Some k"
| "constructed_with ReadApiKey = None"
| "constructed_with (ModelCall k t vars) = None"
| "constructed_with (EmbedDocuments k ts) = None"
| "constructed_with (EmbedQuery k q n) = None"

text \<open>An event that does not read the credentials store and that, if it constructs an
  instance, constructs it with the given key.\<close>

definition built_with :: "jsstring \<Rightarrow> event \<Rightarrow> bool" where
  "built_with key ev \<longleftrightarrow>
     ev \<noteq> ReadApiKey \<and> (constructed_with ev = None \<or> constructed_with ev = Some key)"

text \<open>The string a parsed item has under a property name: \<open>None\<close> when the item is not an
  object, has no such property, or has another kind of value there.\<close>

definition string_field :: "json \<Rightarrow> string \<Rightarrow> jsstring option" where
  "string_field x k =
     (case x of
        JObj kvs \<Rightarrow> (case map_of kvs (js k) of Some (JStr s) \<Rightarrow> Some s | _ \<Rightarrow> None)
      | _ \<Rightarrow> None)"

text \<open>A property that is a string where the item has it.\<close>

definition string_where_present :: "json \<Rightarrow> string \<Rightarrow> bool" where
  "string_where_present x k \<longleftrightarrow>
     (case x of
        JObj kvs \<Rightarrow>
          (case map_of kvs (js k) of None \<Rightarrow> True | Some (JStr s) \<Rightarrow> True | Some v \<Rightarrow> False)
      | _ \<Rightarrow> True)"

text \<open>The parsed legal-reference items the amended rule speaks of: any value but \<^verbatim>\<open>null\<close>,
  with whatever properties in whatever order, whose title, url and relevance are strings
  where present.\<close>

definition article_item :: "json \<Rightarrow> bool" where
  "article_item x \<longleftrightarrow>
     x \<noteq> JNull \<and> string_where_present x ''title'' \<and> string_where_present x ''url''
     \<and> string_where_present x ''relevance''"

text \<open>The rule of the specification for such an item: it is kept when title, url and
  relevance are all present (and not empty) and the url parses; what is kept is the three
  fields, each without its leading and trailing white space.\<close>

definition spec_article_kept :: "builtins \<Rightarrow> json \<Rightarrow> bool" where
  "spec_article_kept B x \<longleftrightarrow>
     or_else (string_field x ''title'') [] \<noteq> [] \<and> or_else (string_field x ''url'') [] \<noteq> []
     \<and> or_else (string_field x ''relevance'') [] \<noteq> []
     \<and> URL_parses B (or_else (string_field x ''url'') [])"

definition spec_article_output :: "json \<Rightarrow> GovernmentArticle" where
  "spec_article_output x =
     \<lparr>title = js_trim (or_else (string_field x ''title'') []),
      url = js_trim (or_else (string_field x ''url'') []),
      relevance = js_trim (or_else (string_field x ''relevance'') [])\<rparr>"

text \<open>A response is malformed, in the words of the specification, when none of the three
  layers yields a value: the text does not parse, the array of a fenced block, where the
  text has one, does not parse, and the first array-like substring, where the text has
  one, does not parse.\<close>

definition malformed_response :: "builtins \<Rightarrow> jsstring \<Rightarrow> bool" where
  "malformed_response B response \<longleftrightarrow>
     JSON_parse B response = None
     \<and> (case match_code_block response of Some g \<Rightarrow> JSON_parse B g = None | None \<Rightarrow> True)
     \<and> (case match_json_array response of Some m \<Rightarrow> JSON_parse B m = None | None \<Rightarrow> True)"

text \<open>The index contract of the retriever: candidates come most relevant first.\<close>

definition descending_scores :: "('a \<times> real) list \<Rightarrow> bool" where
  "descending_scores rs \<longleftrightarrow> sorted_wrt (\<lambda>a b. snd b \<le> snd a) rs"

text \<open>Well-formed cache states: keys are distinct, as in a \<^verbatim>\<open>Map\<close>, and the handles of the
  entries are distinct and were all drawn from the counter.\<close>

definition cache_inv :: "cache_state \<Rightarrow> bool" where
  "cache_inv st \<longleftrightarrow>
     distinct (map fst (vectorStoreCache st))
     \<and> distinct (map (\<lambda>kv. handle (snd kv)) (vectorStoreCache st))
     \<and> list_all (\<lambda>kv. handle (snd kv) < next_handle st) (vectorStoreCache st)"

text \<open>An instance of the built-ins and of the collaborators for the worked examples.  Each
  component agrees with the platform on the arguments the examples give it and is
  arbitrary elsewhere.\<close>

definition demo_builtins :: builtins where
  "demo_builtins =
     \<lparr>Number_toString = (\<lambda>r. js ''0''),
      URL_parses = (\<lambda>s. starts_with (js ''https://'') s \<and> 8 < length s),
      JSON_parse =
        (\<lambda>s. if s = js ''[]'' then Some (JArr [])
             else if s = js ''[{}]'' then Some (JArr [JObj []])
             else None)\<rparr>"

definition demo_services :: services where
  "demo_services =
     \<lparr>getGeminiApiKey = Some (js ''k''),
      llm_accepts = (\<lambda>k. k \<noteq> []),
      embeddings_accepts = (\<lambda>k. k \<noteq> []),
      invoke = (\<lambda>k t vars. Some (js ''[]'')),
      splitText = (\<lambda>s. if s = [] then [] else [s]),
      embedDocuments = (\<lambda>k ts. True),
      similaritySearchWithScore = (\<lambda>k docs q n. Some (take n (map (\<lambda>d. (d, 1)) docs)))\<rparr>"


text \<open>Variants of the collaborators: a model whose risky-terms response is not JSON, an
  index that ranks its two documents 0.9 and 0.5, and an index whose query is rejected.\<close>

definition demo_garbled_services :: services where
  "demo_garbled_services =
     demo_services\<lparr>invoke :=
       (\<lambda>k t vars. if t = riskyTermsTemplate then Some (js ''not json'') else Some (js ''[]''))\<rparr>"

definition demo_ranked_services :: services where
  "demo_ranked_services =
     demo_services\<lparr>similaritySearchWithScore :=
       (\<lambda>k docs q n. Some (take n (zip docs [0.9, 0.5])))\<rparr>"

definition demo_failing_services :: services where
  "demo_failing_services =
     demo_services\<lparr>similaritySearchWithScore := (\<lambda>k docs q n. None)\<rparr>"

definition demo_chunks :: "ClauseChunk list" where
  "demo_chunks =
     [mk_chunk (js ''alpha'') 0 (js ''original_clause'') original,
      mk_chunk (js ''beta'') 0 (js ''simplified_explanation'') simplified]"

definition demo_store :: VectorStoreData where
  "demo_store =
     \<lparr>vectorStore = map to_document demo_chunks, chunks = demo_chunks,
      embeddings = \<lparr>apiKey = js ''k'', model = js ''embedding-001''\<rparr>, handle = 0\<rparr>"

text \<open>A cache that holds ten entries, under keys that are single code units.\<close>

definition demo_full_cache :: cache_state where
  "demo_full_cache =
     \<lparr>vectorStoreCache =
        map (\<lambda>i. ([i], demo_store\<lparr>handle := i\<rparr>)) [0, 1, 2, 3, 4, 5, 6, 7, 8, 9],
      next_handle = 10\<rparr>"

text \<open>A response that wraps an empty array in a fenced block, and a response whose fenced
  block holds an array that is not JSON (a trailing comma) and is followed by an array-like
  text that is.\<close>

definition demo_fenced :: jsstring where
  "demo_fenced = [96, 96, 96] @ js ''json'' @ [10] @ js ''[]'' @ [10, 96, 96, 96]"

definition demo_broken_fence :: jsstring where
  "demo_broken_fence =
     [96, 96, 96] @ js ''json'' @ [10] @ js ''[1,]'' @ [10, 96, 96, 96] @ js '' [{}]''"

definition demo_analysis :: AnalysisResponse where
  "demo_analysis =
     \<lparr>simplifiedExplanation = js ''plain'', riskyTerms = [], governmentArticles = []\<rparr>"

section \<open>Basic facts\<close>

lemma js_eq_iff [simp]: "js a = js b \<longleftrightarrow> a = b"
  unfolding js_def using inj_of_char by (metis inj_map_eq_map)

lemma js_Nil_iff [simp]: "js a = [] \<longleftrightarrow> a = []"
  by (simp add: js_def)

lemma js_Nil [simp]: "js [] = []"
  by (simp add: js_def)

lemma ebind_simps [simp]:
  "ebind (Inl e) f = Inl e" "ebind (Inr x) f = f x"
  by (simp_all add: ebind_def)

lemma io_bind_simps [simp]:
  "io_bind (Inl e, evs) f = (Inl e, evs)"
  "io_bind (Inr x, evs) f = (fst (f x), evs @ snd (f x))"
  by (simp_all add: io_bind_def split: prod.splits)

lemma io_catch_simps [simp]:
  "io_catch (Inl e, evs) h = (fst (h e), evs @ snd (h e))"
  "io_catch (Inr x, evs) h = (Inr x, evs)"
  by (simp_all add: io_catch_def split: prod.splits)

lemma io_basic [simp]:
  "io_return x = (Inr x, [])" "io_throw e = (Inl e, [])" "io_lift m = (m, [])"
  by (simp_all add: io_return_def io_throw_def io_lift_def)

section \<open>Strategy selector: the gate of batch processing\<close>

text \<open>
  Claim C9.  \<^verbatim>\<open>processBatchClauses\<close> goes on to the batch analysis only when the loaded
  configuration has both \<open>useLangChain\<close> and \<open>enableBatchProcessing\<close> on.  With
  \<open>useLangChain\<close> off it throws an error that names the LangChain API; with \<open>useLangChain\<close>
  on and \<open>enableBatchProcessing\<close> off it throws an error that says batch processing is
  disabled in the configuration.  In both cases no call has left the process: the list of
  recorded calls is empty, so no model call was attempted.
\<close>

theorem processBatchClauses_gate:
  "(\<not> useLangChain (loadAPIConfig stored apiConfig) \<longrightarrow>
      fst (processBatchClauses B S stored apiConfig clauses)
        = (Inl (Error ''Batch processing is only available with LangChain API''), []))
   \<and> (useLangChain (loadAPIConfig stored apiConfig)
        \<and> \<not> enableBatchProcessing (loadAPIConfig stored apiConfig) \<longrightarrow>
      fst (processBatchClauses B S stored apiConfig clauses)
        = (Inl (Error ''Batch processing is disabled in configuration''), []))
   \<and> (useLangChain (loadAPIConfig stored apiConfig)
        \<and> enableBatchProcessing (loadAPIConfig stored apiConfig) \<longrightarrow>
      fst (processBatchClauses B S stored apiConfig clauses) = analyzeBatchClauses B S clauses)"
  by (simp add: processBatchClauses_def Let_def)

theorem processBatchClauses_gate_witness:
  "\<not> useLangChain (loadAPIConfig NoItem (default_apiConfig\<lparr>useLangChain := False\<rparr>))
   \<and> fst (processBatchClauses demo_builtins demo_services NoItem
            (default_apiConfig\<lparr>useLangChain := False\<rparr>) [js ''a''])
       = (Inl (Error ''Batch processing is only available with LangChain API''), [])
   \<and> useLangChain (loadAPIConfig NoItem (default_apiConfig\<lparr>enableBatchProcessing := False\<rparr>))
   \<and> \<not> enableBatchProcessing
         (loadAPIConfig NoItem (default_apiConfig\<lparr>enableBatchProcessing := False\<rparr>))
   \<and> fst (processBatchClauses demo_builtins demo_services NoItem
            (default_apiConfig\<lparr>enableBatchProcessing := False\<rparr>) [js ''a''])
       = (Inl (Error ''Batch processing is disabled in configuration''), [])
   \<and> useLangChain (loadAPIConfig NoItem default_apiConfig)
   \<and> enableBatchProcessing (loadAPIConfig NoItem default_apiConfig)
   \<and> fst (processBatchClauses demo_builtins demo_services NoItem default_apiConfig [js ''a''])
       = analyzeBatchClauses demo_builtins demo_services [js ''a'']"
  using processBatchClauses_gate [of NoItem "default_apiConfig\<lparr>useLangChain := False\<rparr>"
          demo_builtins demo_services "[js ''a'']"]
        processBatchClauses_gate [of NoItem "default_apiConfig\<lparr>enableBatchProcessing := False\<rparr>"
          demo_builtins demo_services "[js ''a'']"]
        processBatchClauses_gate [of NoItem default_apiConfig
          demo_builtins demo_services "[js ''a'']"]
  by (simp add: loadAPIConfig_def default_apiConfig_def)

section \<open>Validation of risky terms\<close>

text \<open>The two examples of the specification: an unknown severity word becomes
  \<^verbatim>\<open>moderate\<close>, and an item without explanation is dropped.\<close>

lemma validateRiskyTerms_unknown_severity:
  "validateRiskyTerms B
     (JArr [JObj [(js ''term'', JStr (js ''x'')), (js ''severity'', JStr (js ''EXTREME'')),
                  (js ''explanation'', JStr (js ''y''))]])
   = Inr [\<lparr>rt_term = js ''x'', rt_severity = js ''moderate'', rt_explanation = js ''y''\<rparr>]"
  by (simp add: validateRiskyTerms_def riskyTerm_present_def riskyTerm_sanitize_def String_of_def
      call_toLowerCase_def js_toLowerCase_def js_trim_def js_whitespace_def js_def)

lemma validateRiskyTerms_missing_explanation:
  "validateRiskyTerms B
     (JArr [JObj [(js ''term'', JStr (js ''x'')), (js ''severity'', JStr (js ''High''))]])
   = Inr []"
  by (simp add: validateRiskyTerms_def riskyTerm_present_def)

text \<open>
  Claim C6.  The claim asks that every parsed item comes out with a severity among
  \<^verbatim>\<open>high\<close>, \<^verbatim>\<open>moderate\<close>, \<^verbatim>\<open>low\<close>, an unrecognised severity becoming \<^verbatim>\<open>moderate\<close>.  On the item
  \<^verbatim>\<open>{term: "x", severity: 5, explanation: "y"}\<close> the code does not coerce: all three fields are
  truthy, the item passes the filter, and \<^verbatim>\<open>term.severity?.toLowerCase()\<close> calls a method a
  number does not have, so \<^verbatim>\<open>validateRiskyTerms\<close> throws a TypeError.
\<close>

theorem validateRiskyTerms_numeric_severity_throws:
  "validateRiskyTerms demo_builtins
     (JArr [JObj [(js ''term'', JStr (js ''x'')), (js ''severity'', JNum 5),
                  (js ''explanation'', JStr (js ''y''))]])
   = Inl TypeError"
  by (simp add: validateRiskyTerms_def riskyTerm_present_def riskyTerm_sanitize_def String_of_def)


section \<open>Validation of legal references\<close>

lemma truthy_string: "truthy (map_option JStr v) \<longleftrightarrow> or_else v [] \<noteq> []"
  by (cases v) (simp_all add: or_else_def)

lemma article_item_get:
  assumes "x \<noteq> JNull" "string_where_present x k"
  shows "js_get x (js k) = Inr (map_option JStr (string_field x k))"
proof (cases x)
  case (JObj kvs)
  show ?thesis
  proof (cases "map_of kvs (js k)")
    case None
    then show ?thesis by (simp add: JObj string_field_def)
  next
    case (Some v)
    with assms(2) obtain s where "v = JStr s"
      by (cases v) (simp_all add: JObj string_where_present_def)
    with Some show ?thesis by (simp add: JObj string_field_def)
  qed
qed (use assms in \<open>simp_all add: string_field_def\<close>)

lemma article_ok_item:
  assumes "article_item x"
  shows "article_ok B x = Inr (spec_article_kept B x)"
proof -
  from assms have g:
    "js_get x (js ''title'') = Inr (map_option JStr (string_field x ''title''))"
    "js_get x (js ''url'') = Inr (map_option JStr (string_field x ''url''))"
    "js_get x (js ''relevance'') = Inr (map_option JStr (string_field x ''relevance''))"
    by (simp_all add: article_item_def article_item_get)
  show ?thesis
    by (cases "string_field x ''url''")
       (auto simp: article_ok_def g truthy_string spec_article_kept_def String_of_def or_else_def)
qed

lemma article_sanitize_item:
  assumes "article_item x" "spec_article_kept B x"
  shows "article_sanitize B x = Inr (spec_article_output x)"
proof -
  from assms(1) have g:
    "js_get x (js ''title'') = Inr (map_option JStr (string_field x ''title''))"
    "js_get x (js ''url'') = Inr (map_option JStr (string_field x ''url''))"
    "js_get x (js ''relevance'') = Inr (map_option JStr (string_field x ''relevance''))"
    by (simp_all add: article_item_def article_item_get)
  from assms(2) show ?thesis
    by (cases "string_field x ''title''"; cases "string_field x ''url''";
        cases "string_field x ''relevance''")
       (simp_all add: article_sanitize_def g spec_article_kept_def spec_article_output_def
          String_of_def or_else_def)
qed

lemma filter_e_article_items:
  "list_all article_item items \<Longrightarrow>
   filter_e (article_ok B) items = Inr (filter (spec_article_kept B) items)"
  by (induction items) (simp_all add: article_ok_item)

lemma map_e_article_items:
  "list_all article_item items \<Longrightarrow>
   map_e (article_sanitize B) (filter (spec_article_kept B) items)
   = Inr (map spec_article_output (filter (spec_article_kept B) items))"
  by (induction items) (simp_all add: article_sanitize_item)

text \<open>The first example of the specification: an item whose url does not parse is
  dropped.\<close>

lemma validateGovernmentArticles_drops_bad_url:
  "validateGovernmentArticles demo_builtins
     (JArr [JObj [(js ''title'', JStr (js ''t'')), (js ''url'', JStr (js ''not-a-url'')),
                  (js ''relevance'', JStr (js ''r''))]])
   = Inr []"
  by (simp add: validateGovernmentArticles_def article_ok_def String_of_def
      demo_builtins_def starts_with_def js_def)

text \<open>
  Claim C7, as stated, fails: a kept item is not returned verbatim.  The item
  \<^verbatim>\<open>{title: " t", url: "https://example.com", relevance: "r"}\<close> is kept, and its title comes out
  as \<^verbatim>\<open>"t"\<close>, without the leading space.
\<close>

theorem validateGovernmentArticles_not_verbatim:
  "validateGovernmentArticles demo_builtins
     (JArr [JObj [(js ''title'', JStr (js '' t'')), (js ''url'', JStr (js ''https://example.com'')),
                  (js ''relevance'', JStr (js ''r''))]])
   = Inr [\<lparr>title = js ''t'', url = js ''https://example.com'', relevance = js ''r''\<rparr>]
   \<and> js ''t'' \<noteq> js '' t''"
  by (simp add: validateGovernmentArticles_def article_ok_def article_sanitize_def String_of_def
      demo_builtins_def starts_with_def js_trim_def js_whitespace_def js_def)

text \<open>
  Claim C7, amended.  For every list of parsed items other than \<^verbatim>\<open>null\<close> whose title, url
  and relevance are strings where present (objects with any further properties, in any
  order, and values that are not objects), validation keeps exactly the items in which
  title, url and relevance are all present and not empty and the url parses, in their
  order; each kept item is returned as its three fields with leading and trailing white
  space removed (so verbatim only when they have none), and no other property of the item
  is carried over.
\<close>

theorem validateGovernmentArticles_refines_spec:
  assumes "list_all article_item items"
  shows "validateGovernmentArticles B (JArr items)
         = Inr (map spec_article_output (filter (spec_article_kept B) items))"
  using assms
  by (simp add: validateGovernmentArticles_def filter_e_article_items map_e_article_items)

theorem validateGovernmentArticles_refines_spec_witness:
  "list_all article_item
     [JObj [(js ''relevance'', JStr (js ''r'')), (js ''note'', JNum 1),
            (js ''url'', JStr (js ''https://example.com'')), (js ''title'', JStr (js '' t''))],
      JObj [(js ''title'', JStr (js ''t'')), (js ''url'', JStr (js ''not-a-url'')),
            (js ''relevance'', JStr (js ''r''))],
      JObj [(js ''url'', JStr (js ''https://example.com'')), (js ''title'', JStr (js ''t''))],
      JNum 5]
   \<and> validateGovernmentArticles demo_builtins
       (JArr
         [JObj [(js ''relevance'', JStr (js ''r'')), (js ''note'', JNum 1),
                (js ''url'', JStr (js ''https://example.com'')), (js ''title'', JStr (js '' t''))],
          JObj [(js ''title'', JStr (js ''t'')), (js ''url'', JStr (js ''not-a-url'')),
                (js ''relevance'', JStr (js ''r''))],
          JObj [(js ''url'', JStr (js ''https://example.com'')), (js ''title'', JStr (js ''t''))],
          JNum 5])
     = Inr [\<lparr>title = js ''t'', url = js ''https://example.com'', relevance = js ''r''\<rparr>]"
proof -
  let ?items =
    "[JObj [(js ''relevance'', JStr (js ''r'')), (js ''note'', JNum 1),
            (js ''url'', JStr (js ''https://example.com'')), (js ''title'', JStr (js '' t''))],
      JObj [(js ''title'', JStr (js ''t'')), (js ''url'', JStr (js ''not-a-url'')),
            (js ''relevance'', JStr (js ''r''))],
      JObj [(js ''url'', JStr (js ''https://example.com'')), (js ''title'', JStr (js ''t''))],
      JNum 5]"
  have items: "list_all article_item ?items"
    by (simp add: article_item_def string_where_present_def)
  have "map spec_article_output (filter (spec_article_kept demo_builtins) ?items)
        = [\<lparr>title = js ''t'', url = js ''https://example.com'', relevance = js ''r''\<rparr>]"
    by (simp add: spec_article_kept_def spec_article_output_def string_field_def or_else_def
        demo_builtins_def starts_with_def js_trim_def js_whitespace_def js_def)
  with validateGovernmentArticles_refines_spec [OF items, of demo_builtins] items
  show ?thesis by simp
qed

section \<open>The layered JSON parser\<close>

text \<open>The two patterns on small texts.\<close>

lemma match_code_block_example:
  "match_code_block (js ''Here: '' @ [96, 96, 96] @ js ''json'' @ [10] @ js ''[]'' @ [10, 96, 96, 96])
   = Some (js ''[]'')"
  by (simp add: js_def fence_at_def starts_with_def fence_open_def js_whitespace_def)

lemma match_json_array_example:
  "match_json_array (js ''Sure [ {a} , {b} ] and [{c}]'') = Some (js ''[ {a} , {b} ]'')"
  by (simp add: js_def array_at_def starts_with_def js_whitespace_def)

lemma parseJSONResponse_malformed:
  "malformed_response B response \<Longrightarrow> parseJSONResponse B response fallback = Inr fallback"
  by (auto simp: parseJSONResponse_def try_catch_def JSON_parse_e_def malformed_response_def
      split: option.splits)

lemma readApiKey_ok:
  "getGeminiApiKey S = Some k \<Longrightarrow> k \<noteq> [] \<Longrightarrow> readApiKey S = (Inr k, [ReadApiKey])"
  by (simp add: readApiKey_def)

lemma analyzeClause_result:
  assumes "getGeminiApiKey S = Some k" "k \<noteq> []" "llm_accepts S k"
      and "invoke S k simplificationTemplate [(''clause'', clause)] = Some s"
      and "invoke S k riskyTermsTemplate [(''clause'', clause)] = Some r"
      and "invoke S k governmentArticlesTemplate [(''clause'', clause)] = Some g"
      and "parseJSONResponse B r (JArr []) = Inr rd"
      and "parseJSONResponse B g (JArr []) = Inr gd"
  shows "fst (analyzeClause B S clause)
         = ebind (validateRiskyTerms B rd) (\<lambda>rts.
           ebind (validateGovernmentArticles B gd) (\<lambda>arts.
             Inr \<lparr>simplifiedExplanation = js_trim s, riskyTerms = rts,
                  governmentArticles = arts\<rparr>))"
  using assms
  by (simp add: analyzeClause_def readApiKey_ok createLLMInstance_def promise_all3_def
      chain_invoke_def)

text \<open>What holds of the parser and of the analysis built on it.\<close>

lemma parseJSONResponse_never_throws: "\<exists>v. parseJSONResponse B response fallback = Inr v"
  by (simp add: parseJSONResponse_def try_catch_def split: sum.splits)

lemma parseJSONResponse_direct:
  "JSON_parse B response = Some v \<Longrightarrow> parseJSONResponse B response fallback = Inr v"
  by (simp add: parseJSONResponse_def try_catch_def JSON_parse_e_def)

lemma parseJSONResponse_fenced:
  "JSON_parse B response = None \<Longrightarrow> match_code_block response = Some g \<Longrightarrow>
   JSON_parse B g = Some v \<Longrightarrow> parseJSONResponse B response fallback = Inr v"
  by (simp add: parseJSONResponse_def try_catch_def JSON_parse_e_def)

lemma parseJSONResponse_array_without_fence:
  "JSON_parse B response = None \<Longrightarrow> match_code_block response = None \<Longrightarrow>
   match_json_array response = Some m \<Longrightarrow> JSON_parse B m = Some v \<Longrightarrow>
   parseJSONResponse B response fallback = Inr v"
  by (simp add: parseJSONResponse_def try_catch_def JSON_parse_e_def)

text \<open>A fenced block whose text does not parse ends the attempts: the array-like
  substring is not looked for.\<close>

lemma parseJSONResponse_fence_fails:
  "JSON_parse B response = None \<Longrightarrow> match_code_block response = Some g \<Longrightarrow>
   JSON_parse B g = None \<Longrightarrow> parseJSONResponse B response fallback = Inr fallback"
  by (simp add: parseJSONResponse_def try_catch_def JSON_parse_e_def)

lemma analyzeClause_malformed_riskyTerms:
  assumes "getGeminiApiKey S = Some k" "k \<noteq> []" "llm_accepts S k"
      and "invoke S k simplificationTemplate [(''clause'', clause)] = Some s"
      and "invoke S k riskyTermsTemplate [(''clause'', clause)] = Some r"
      and "invoke S k governmentArticlesTemplate [(''clause'', clause)] = Some g"
      and "malformed_response B r"
      and "parseJSONResponse B g (JArr []) = Inr gd"
      and "validateGovernmentArticles B gd = Inr arts"
  shows "fst (analyzeClause B S clause)
         = Inr \<lparr>simplifiedExplanation = js_trim s, riskyTerms = [], governmentArticles = arts\<rparr>"
proof -
  have rd: "parseJSONResponse B r (JArr []) = Inr (JArr [])"
    using assms(7) by (rule parseJSONResponse_malformed)
  have "validateRiskyTerms B (JArr []) = Inr []"
    by (simp add: validateRiskyTerms_def)
  with analyzeClause_result [OF assms(1-6) rd assms(8)] assms(9) show ?thesis
    by simp
qed

lemma analyzeClause_malformed_governmentArticles:
  assumes "getGeminiApiKey S = Some k" "k \<noteq> []" "llm_accepts S k"
      and "invoke S k simplificationTemplate [(''clause'', clause)] = Some s"
      and "invoke S k riskyTermsTemplate [(''clause'', clause)] = Some r"
      and "invoke S k governmentArticlesTemplate [(''clause'', clause)] = Some g"
      and "malformed_response B g"
      and "parseJSONResponse B r (JArr []) = Inr rd"
      and "validateRiskyTerms B rd = Inr rts"
  shows "fst (analyzeClause B S clause)
         = Inr \<lparr>simplifiedExplanation = js_trim s, riskyTerms = rts, governmentArticles = []\<rparr>"
proof -
  have gd: "parseJSONResponse B g (JArr []) = Inr (JArr [])"
    using assms(7) by (rule parseJSONResponse_malformed)
  have "validateGovernmentArticles B (JArr []) = Inr []"
    by (simp add: validateGovernmentArticles_def)
  with analyzeClause_result [OF assms(1-6) assms(8) gd] assms(9) show ?thesis
    by simp
qed

lemma match_code_block_plain_text: "match_code_block (js ''not json'') = None"
  by (simp add: js_def fence_at_def starts_with_def)

lemma match_json_array_plain_text: "match_json_array (js ''not json'') = None"
  by (simp add: js_def array_at_def)

lemma malformed_response_plain_text: "malformed_response demo_builtins (js ''not json'')"
  by (simp add: malformed_response_def match_code_block_plain_text match_json_array_plain_text
      demo_builtins_def)

lemma match_code_block_fenced: "match_code_block demo_fenced = Some (js ''[]'')"
  by (simp add: demo_fenced_def js_def fence_at_def starts_with_def fence_open_def
      js_whitespace_def)

text \<open>A model whose risky-terms response is plain text: the analysis is returned, with no
  risky terms.\<close>

lemma analyzeClause_garbled_riskyTerms:
  "fst (analyzeClause demo_builtins demo_garbled_services (js ''c''))
   = Inr \<lparr>simplifiedExplanation = js ''[]'', riskyTerms = [], governmentArticles = []\<rparr>"
proof -
  have s: "getGeminiApiKey demo_garbled_services = Some (js ''k'')" "js ''k'' \<noteq> []"
    "llm_accepts demo_garbled_services (js ''k'')"
    "invoke demo_garbled_services (js ''k'') simplificationTemplate [(''clause'', js ''c'')]
       = Some (js ''[]'')"
    "invoke demo_garbled_services (js ''k'') riskyTermsTemplate [(''clause'', js ''c'')]
       = Some (js ''not json'')"
    "invoke demo_garbled_services (js ''k'') governmentArticlesTemplate [(''clause'', js ''c'')]
       = Some (js ''[]'')"
    by (simp_all add: demo_garbled_services_def demo_services_def)
  have g: "parseJSONResponse demo_builtins (js ''[]'') (JArr []) = Inr (JArr [])"
    by (rule parseJSONResponse_direct) (simp add: demo_builtins_def)
  have v: "validateGovernmentArticles demo_builtins (JArr []) = Inr []"
    by (simp add: validateGovernmentArticles_def)
  have t: "js_trim (js ''[]'') = js ''[]''"
    by (simp add: js_trim_def js_whitespace_def js_def)
  from analyzeClause_malformed_riskyTerms [OF s malformed_response_plain_text g v]
  show ?thesis by (simp add: t)
qed

text \<open>
  Claim C8.  The claim asks for the layers in order: the array-like substring is to be
  tried when the fenced block has failed.  On the response made of a fenced block holding
  \<^verbatim>\<open>[1,]\<close> followed by the text \<^verbatim>\<open>[{}]\<close> the code does not try it: the response does not
  parse, the fenced block is found and its array does not parse, the exception of that
  parse leaves the one \<^verbatim>\<open>try\<close> that holds both extraction attempts, and
  \<^verbatim>\<open>parseJSONResponse\<close> returns the fallback, although the array-like substring \<^verbatim>\<open>[{}]\<close> is
  there and parses.
\<close>

theorem parseJSONResponse_skips_array_layer:
  "JSON_parse demo_builtins demo_broken_fence = None
   \<and> match_code_block demo_broken_fence = Some (js ''[1,]'')
   \<and> JSON_parse demo_builtins (js ''[1,]'') = None
   \<and> match_json_array demo_broken_fence = Some (js ''[{}]'')
   \<and> JSON_parse demo_builtins (js ''[{}]'') = Some (JArr [JObj []])
   \<and> parseJSONResponse demo_builtins demo_broken_fence (JArr []) = Inr (JArr [])"
proof -
  have p: "JSON_parse demo_builtins demo_broken_fence = None"
    "JSON_parse demo_builtins (js ''[1,]'') = None"
    "JSON_parse demo_builtins (js ''[{}]'') = Some (JArr [JObj []])"
    by (simp_all add: demo_builtins_def demo_broken_fence_def js_def)
  have f: "match_code_block demo_broken_fence = Some (js ''[1,]'')"
    by (simp add: demo_broken_fence_def js_def fence_at_def starts_with_def fence_open_def
        js_whitespace_def)
  have a: "match_json_array demo_broken_fence = Some (js ''[{}]'')"
    by (simp add: demo_broken_fence_def js_def array_at_def starts_with_def js_whitespace_def)
  have "parseJSONResponse demo_builtins demo_broken_fence (JArr []) = Inr (JArr [])"
    by (simp add: parseJSONResponse_def try_catch_def JSON_parse_e_def p f)
  with p f a show ?thesis by simp
qed

section \<open>Retriever\<close>


lemma score_attach [simp]: "score_or_0 (attach_score v (d, s)) = s"
  by (simp add: score_or_0_def attach_score_def split: option.splits)

lemma relevance_attach [simp]: "relevanceScore (metadata (attach_score v (d, s))) = Some s"
  by (simp add: attach_score_def split: option.splits)

lemma map_score_attach: "map score_or_0 (map (attach_score v) rs) = map snd rs"
  by (induction rs) auto

lemma subseq_take_filter: "subseq (take n (filter P xs)) xs"
  by (metis subseq_filter_left subseq_order.order_trans append_take_drop_id
       subseq_order.order_refl list_emb_prefix)

lemma descending_take_filter:
  "descending_scores rs \<Longrightarrow> descending_scores (take n (filter P rs))"
  unfolding descending_scores_def
  by (simp add: sorted_wrt_filter)

text \<open>
  Claim C1.  When the similarity query succeeds, \<^verbatim>\<open>retrieveRelevantContext\<close> has asked the
  index for \<open>2 \<times> maxResults\<close> candidates (the one recorded call), returns at most
  \<open>maxResults\<close> chunks, and every returned chunk carries a score that is at least
  \<open>relevanceThreshold\<close>.  The scores of the returned chunks are, in order, a subsequence of
  the scores the index returned; so with an index that returns its candidates by
  descending score, the returned chunks are ordered by descending score.
\<close>

theorem retrieveRelevantContext_success:
  assumes "similaritySearchWithScore S (apiKey (embeddings v)) (vectorStore v) question
             (or_else (maxResults options) 3 * 2) = Some results"
  shows "\<exists>r. retrieveRelevantContext S question v options
               = (Inr r, [EmbedQuery (apiKey (embeddings v)) question
                            (or_else (maxResults options) 3 * 2)])
           \<and> length (relevantChunks r) \<le> or_else (maxResults options) 3
           \<and> list_all (\<lambda>c. \<exists>s. relevanceScore (metadata c) = Some s
                               \<and> or_else (relevanceThreshold options) 0.7 \<le> s)
                (relevantChunks r)
           \<and> subseq (map score_or_0 (relevantChunks r)) (map snd results)
           \<and> (descending_scores results \<longrightarrow>
                sorted_wrt (\<lambda>a b. score_or_0 b \<le> score_or_0 a) (relevantChunks r))"
proof -
  let ?n = "or_else (maxResults options) 3"
  let ?t = "or_else (relevanceThreshold options) 0.7"
  let ?kept = "take ?n (filter (\<lambda>(d, score). ?t \<le> score) results)"
  let ?r = "map (attach_score v) ?kept"
  have q: "similarity_query S v question (?n * 2)
             = (Inr results, [EmbedQuery (apiKey (embeddings v)) question (?n * 2)])"
    using assms by (simp add: similarity_query_def)
  have ex: "\<exists>r. retrieveRelevantContext S question v options
               = (Inr r, [EmbedQuery (apiKey (embeddings v)) question (?n * 2)])
             \<and> relevantChunks r = ?r"
    by (simp add: retrieveRelevantContext_def Let_def q)
  have len: "length ?r \<le> ?n" by simp
  have thr: "list_all (\<lambda>c. \<exists>s. relevanceScore (metadata c) = Some s \<and> ?t \<le> s) ?r"
    by (auto simp: list_all_iff dest!: in_set_takeD)
  have sub: "subseq (map score_or_0 ?r) (map snd results)"
    unfolding map_score_attach by (rule subseq_map) (rule subseq_take_filter)
  have srt: "descending_scores results \<Longrightarrow> sorted_wrt (\<lambda>a b. score_or_0 b \<le> score_or_0 a) ?r"
  proof -
    assume "descending_scores results"
    then have "descending_scores ?kept" by (rule descending_take_filter)
    then have "sorted_wrt (\<lambda>a b. b \<le> a) (map snd ?kept)"
      by (simp add: descending_scores_def sorted_wrt_map)
    then have "sorted_wrt (\<lambda>a b. b \<le> a) (map score_or_0 ?r)"
      by (simp only: map_score_attach)
    then show ?thesis by (simp only: sorted_wrt_map)
  qed
  from ex obtain r where
    r: "retrieveRelevantContext S question v options
          = (Inr r, [EmbedQuery (apiKey (embeddings v)) question (?n * 2)])"
    and rc: "relevantChunks r = ?r"
    by blast
  show ?thesis
  proof (intro exI [of _ r] conjI impI)
    show "retrieveRelevantContext S question v options
            = (Inr r, [EmbedQuery (apiKey (embeddings v)) question (?n * 2)])"
      by (rule r)
    show "length (relevantChunks r) \<le> ?n"
      unfolding rc by (rule len)
    show "list_all (\<lambda>c. \<exists>s. relevanceScore (metadata c) = Some s \<and> ?t \<le> s) (relevantChunks r)"
      unfolding rc by (rule thr)
    show "subseq (map score_or_0 (relevantChunks r)) (map snd results)"
      unfolding rc by (rule sub)
    show "sorted_wrt (\<lambda>a b. score_or_0 b \<le> score_or_0 a) (relevantChunks r)"
      if "descending_scores results"
      unfolding rc using that by (rule srt)
  qed
qed

text \<open>
  Claim C3.  When the similarity query fails, \<^verbatim>\<open>retrieveRelevantContext\<close> does not throw: it
  returns the first \<open>maxResults\<close> chunks of the full chunk set in their original order,
  their texts joined as the summary, the size of the chunk set, and an average relevance
  of 0.
\<close>

theorem retrieveRelevantContext_fallback:
  assumes "similaritySearchWithScore S (apiKey (embeddings v)) (vectorStore v) question
             (or_else (maxResults options) 3 * 2) = None"
  shows "retrieveRelevantContext S question v options
         = (Inr \<lparr>relevantChunks = take (or_else (maxResults options) 3) (chunks v),
                 contextSummary =
                   join [10, 10] (map content (take (or_else (maxResults options) 3) (chunks v))),
                 totalChunks = length (chunks v),
                 averageRelevance = 0\<rparr>,
            [EmbedQuery (apiKey (embeddings v)) question (or_else (maxResults options) 3 * 2)])"
  using assms by (simp add: retrieveRelevantContext_def Let_def similarity_query_def)


lemma demo_ranked_query:
  "similaritySearchWithScore demo_ranked_services (apiKey (embeddings demo_store))
     (vectorStore demo_store) (js ''q'') 6
   = Some [(to_document (mk_chunk (js ''alpha'') 0 (js ''original_clause'') original), 0.9),
           (to_document (mk_chunk (js ''beta'') 0 (js ''simplified_explanation'') simplified), 0.5)]"
  by (simp add: demo_ranked_services_def demo_services_def demo_store_def demo_chunks_def)

lemma demo_store_key: "apiKey (embeddings demo_store) = js ''k''"
  by (simp add: demo_store_def)

theorem retrieveRelevantContext_success_witness:
  "similaritySearchWithScore demo_ranked_services (apiKey (embeddings demo_store))
     (vectorStore demo_store) (js ''q'') 6
   = Some [(to_document (mk_chunk (js ''alpha'') 0 (js ''original_clause'') original), 0.9),
           (to_document (mk_chunk (js ''beta'') 0 (js ''simplified_explanation'') simplified), 0.5)]
   \<and> descending_scores
         [(to_document (mk_chunk (js ''alpha'') 0 (js ''original_clause'') original), 0.9 :: real),
          (to_document (mk_chunk (js ''beta'') 0 (js ''simplified_explanation'') simplified), 0.5)]
   \<and> (\<exists>r. retrieveRelevantContext demo_ranked_services (js ''q'') demo_store
              \<lparr>maxResults = Some 3, relevanceThreshold = Some 0.6, includeMetadata = Some True\<rparr>
            = (Inr r, [EmbedQuery (js ''k'') (js ''q'') 6])
          \<and> length (relevantChunks r) \<le> 3
          \<and> list_all (\<lambda>c. \<exists>s. relevanceScore (metadata c) = Some s \<and> 0.6 \<le> s) (relevantChunks r)
          \<and> sorted_wrt (\<lambda>a b. score_or_0 b \<le> score_or_0 a) (relevantChunks r))"
proof -
  let ?o = "\<lparr>maxResults = Some 3, relevanceThreshold = Some 0.6, includeMetadata = Some True\<rparr>"
  let ?rs = "[(to_document (mk_chunk (js ''alpha'') 0 (js ''original_clause'') original), 0.9 :: real),
          (to_document (mk_chunk (js ''beta'') 0 (js ''simplified_explanation'') simplified), 0.5)]"
  have n: "or_else (maxResults ?o) 3 * 2 = 6" and t: "or_else (relevanceThreshold ?o) 0.7 = 0.6"
    by (simp_all add: or_else_def)
  have d: "descending_scores ?rs"
    by (simp add: descending_scores_def)
  have q: "similaritySearchWithScore demo_ranked_services (apiKey (embeddings demo_store))
     (vectorStore demo_store) (js ''q'') (or_else (maxResults ?o) 3 * 2) = Some ?rs"
    unfolding n by (rule demo_ranked_query)
  have m: "or_else (maxResults ?o) 3 = 3" and six: "(3::nat) * 2 = 6"
    by (simp_all add: or_else_def)
  note T = retrieveRelevantContext_success [OF q, unfolded m six t demo_store_key]
  then obtain r where r:
    "retrieveRelevantContext demo_ranked_services (js ''q'') demo_store ?o
       = (Inr r, [EmbedQuery (js ''k'') (js ''q'') 6])
     \<and> length (relevantChunks r) \<le> 3
     \<and> list_all (\<lambda>c. \<exists>s. relevanceScore (metadata c) = Some s \<and> 0.6 \<le> s) (relevantChunks r)
     \<and> subseq (map score_or_0 (relevantChunks r)) (map snd ?rs)
     \<and> (descending_scores ?rs \<longrightarrow>
          sorted_wrt (\<lambda>a b. score_or_0 b \<le> score_or_0 a) (relevantChunks r))" ..
  show ?thesis
  proof (intro conjI)
    show "similaritySearchWithScore demo_ranked_services (apiKey (embeddings demo_store))
     (vectorStore demo_store) (js ''q'') 6 = Some ?rs"
      by (rule demo_ranked_query)
    show "descending_scores ?rs" by (rule d)
    show "\<exists>r. retrieveRelevantContext demo_ranked_services (js ''q'') demo_store ?o
            = (Inr r, [EmbedQuery (js ''k'') (js ''q'') 6])
          \<and> length (relevantChunks r) \<le> 3
          \<and> list_all (\<lambda>c. \<exists>s. relevanceScore (metadata c) = Some s \<and> 0.6 \<le> s) (relevantChunks r)
          \<and> sorted_wrt (\<lambda>a b. score_or_0 b \<le> score_or_0 a) (relevantChunks r)"
      using r d by (intro exI [of _ r]) simp
  qed
qed

lemma demo_failing_query:
  "similaritySearchWithScore demo_failing_services (apiKey (embeddings demo_store))
     (vectorStore demo_store) (js ''q'') 2 = None"
  by (simp add: demo_failing_services_def)

theorem retrieveRelevantContext_fallback_witness:
  "similaritySearchWithScore demo_failing_services (apiKey (embeddings demo_store))
     (vectorStore demo_store) (js ''q'') 2 = None
   \<and> retrieveRelevantContext demo_failing_services (js ''q'') demo_store
        \<lparr>maxResults = Some 1, relevanceThreshold = None, includeMetadata = None\<rparr>
     = (Inr \<lparr>relevantChunks = [mk_chunk (js ''alpha'') 0 (js ''original_clause'') original],
             contextSummary = js ''alpha'',
             totalChunks = 2,
             averageRelevance = 0\<rparr>,
        [EmbedQuery (js ''k'') (js ''q'') 2])"
proof -
  let ?o = "\<lparr>maxResults = Some 1, relevanceThreshold = None, includeMetadata = None\<rparr>"
  have n: "or_else (maxResults ?o) 3 * 2 = 2" and m: "or_else (maxResults ?o) 3 = 1"
    by (simp_all add: or_else_def)
  have q: "similaritySearchWithScore demo_failing_services (apiKey (embeddings demo_store))
     (vectorStore demo_store) (js ''q'') (or_else (maxResults ?o) 3 * 2) = None"
    unfolding n by (rule demo_failing_query)
  have c: "chunks demo_store = [mk_chunk (js ''alpha'') 0 (js ''original_clause'') original,
      mk_chunk (js ''beta'') 0 (js ''simplified_explanation'') simplified]"
    by (simp add: demo_store_def demo_chunks_def)
  have "retrieveRelevantContext demo_failing_services (js ''q'') demo_store ?o
     = (Inr \<lparr>relevantChunks = [mk_chunk (js ''alpha'') 0 (js ''original_clause'') original],
             contextSummary = js ''alpha'',
             totalChunks = 2,
             averageRelevance = 0\<rparr>,
        [EmbedQuery (js ''k'') (js ''q'') 2])"
    using retrieveRelevantContext_fallback [OF q]
    unfolding n m demo_store_key c by (simp add: mk_chunk_def)
  with demo_failing_query show ?thesis by blast
qed


section \<open>Strategy selector: follow-up questions and batches\<close>



lemma io_map_snd [simp]: "snd (io_map f m) = snd m"
  by (cases m; cases "fst m") (simp_all add: io_map_def)

lemma retrieve_events:
  "snd (retrieveRelevantContext S question v options)
   = [EmbedQuery (apiKey (embeddings v)) question (or_else (maxResults options) 3 * 2)]"
  by (simp add: retrieveRelevantContext_def Let_def similarity_query_def split: option.splits)

lemma retrieveRelevantContext_never_throws: "\<exists>r. fst (retrieveRelevantContext S question v options) = Inr r"
  by (simp add: retrieveRelevantContext_def Let_def similarity_query_def split: option.splits)

lemma create_events:
  "list_all (built_with key) (snd (fst (createClauseVectorStore S c d key st)))"
  by (simp add: createClauseVectorStore_def Let_def built_with_def
      split: sum.splits option.splits)

lemma llm_events: "list_all (built_with key) (snd (createLLMInstance S key))"
  by (simp add: createLLMInstance_def built_with_def)

lemma invoke_events: "list_all (built_with key) (snd (chain_invoke S key t vars))"
  by (simp add: chain_invoke_def built_with_def)

lemma list_all_io_bind:
  "list_all P (snd m) \<Longrightarrow> (\<And>x. list_all P (snd (f x))) \<Longrightarrow> list_all P (snd (io_bind m f))"
  by (cases m; cases "fst m") auto

lemma list_all_io_catch:
  "list_all P (snd m) \<Longrightarrow> (\<And>x. list_all P (snd (h x))) \<Longrightarrow> list_all P (snd (io_catch m h))"
  by (cases m; cases "fst m") auto

lemma enhanced_events:
  "list_all (built_with key) (snd (fst (submitEnhancedFollowupQuestion S q c d key st)))"
proof -
  obtain created st' where cr: "createClauseVectorStore S c d key st = (created, st')"
    by (cases "createClauseVectorStore S c d key st")
  have "list_all (built_with key) (snd created)"
    using create_events [of key S c d st] by (simp add: cr)
  then show ?thesis
    unfolding submitEnhancedFollowupQuestion_def cr
    apply simp
    apply (intro list_all_io_catch list_all_io_bind)
    apply (simp_all add: retrieve_events built_with_def llm_events invoke_events createLLMInstance_def chain_invoke_def)
    done
qed

text \<open>
  Claim C10.  When the loaded configuration has both \<open>useLangChain\<close> and
  \<open>enableSemanticSearch\<close> on and an analysis is passed, the wrapper answers through
  \<^verbatim>\<open>submitEnhancedFollowupQuestion\<close> with the empty string as API key.  On that path the
  credentials store is never read, and every embeddings or model instance that is
  constructed is constructed with the empty key.
\<close>

theorem submitFollowupQuestion_semantic_key:
  assumes "useLangChain (loadAPIConfig stored apiConfig)"
      and "enableSemanticSearch (loadAPIConfig stored apiConfig)"
  shows "submitFollowupQuestion S stored apiConfig question clause (Some d) st
           = (io_map Enhanced (fst (submitEnhancedFollowupQuestion S question clause d [] st)),
              loadAPIConfig stored apiConfig,
              snd (submitEnhancedFollowupQuestion S question clause d [] st))
         \<and> list_all (built_with [])
             (snd (fst (submitFollowupQuestion S stored apiConfig question clause (Some d) st)))"
proof -
  have route: "submitFollowupQuestion S stored apiConfig question clause (Some d) st
           = (io_map Enhanced (fst (submitEnhancedFollowupQuestion S question clause d [] st)),
              loadAPIConfig stored apiConfig,
              snd (submitEnhancedFollowupQuestion S question clause d [] st))"
    using assms by (simp add: submitFollowupQuestion_def Let_def split: prod.splits)
  show ?thesis
    using enhanced_events [of "[]" S question clause d st]
    by (simp add: route)
qed

lemma io_bind_silent: "(\<And>x. snd (f x) = []) \<Longrightarrow> snd (io_bind m f) = snd m"
  by (cases m; cases "fst m") auto

lemma promise_all3_events [simp]: "snd (promise_all3 a b c) = snd a @ snd b @ snd c"
  by (simp add: promise_all3_def)

lemma chain_invoke_events [simp]: "snd (chain_invoke S k t vars) = [ModelCall k t vars]"
  by (simp add: chain_invoke_def)

lemma analyzeClause_events:
  assumes "getGeminiApiKey S = Some k" "k \<noteq> []" "llm_accepts S k"
  shows "snd (analyzeClause B S clause)
         = [ReadApiKey, NewLLM k,
            ModelCall k simplificationTemplate [(''clause'', clause)],
            ModelCall k riskyTermsTemplate [(''clause'', clause)],
            ModelCall k governmentArticlesTemplate [(''clause'', clause)]]"
proof -
  have "snd (io_bind (promise_all3
        (chain_invoke S k simplificationTemplate [(''clause'', clause)])
        (chain_invoke S k riskyTermsTemplate [(''clause'', clause)])
        (chain_invoke S k governmentArticlesTemplate [(''clause'', clause)])) f)
     = [ModelCall k simplificationTemplate [(''clause'', clause)],
            ModelCall k riskyTermsTemplate [(''clause'', clause)],
            ModelCall k governmentArticlesTemplate [(''clause'', clause)]]"
    if "\<And>x. snd (f x) = []" for f :: "jsstring \<times> jsstring \<times> jsstring \<Rightarrow> AnalysisResponse io"
    using that by (simp add: io_bind_silent)
  then show ?thesis
    using assms
    by (simp add: analyzeClause_def readApiKey_ok createLLMInstance_def split_beta)
qed

lemma promise_all_events: "snd (promise_all ms) = concat (map snd ms)"
  by (simp add: promise_all_def)

lemma batch_model_calls:
  assumes "getGeminiApiKey S = Some k" "k \<noteq> []" "llm_accepts S k"
  shows "length (filter is_model_call (snd (analyzeBatchClauses B S clauses))) = 3 * length clauses"
proof -
  have "length (filter is_model_call (concat (map snd (map (analyzeClause B S) cs)))) = 3 * length cs"
    for cs
    by (induction cs) (simp_all add: analyzeClause_events [OF assms])
  then show ?thesis
    using assms by (simp add: analyzeBatchClauses_def readApiKey_ok promise_all_events)
qed



lemma readApiKey_cases:
  "readApiKey S = (Inl (Error ''Gemini API key not found''), [ReadApiKey])
   \<or> (\<exists>k. k \<noteq> [] \<and> getGeminiApiKey S = Some k \<and> readApiKey S = (Inr k, [ReadApiKey]))"
  by (auto simp: readApiKey_def split: option.splits)

lemma io_map_Inr: "fst (io_map f m) = Inr y \<longleftrightarrow> (\<exists>x. fst m = Inr x \<and> y = f x)"
  by (cases m; cases "fst m") (auto simp: io_map_def)

lemma langchain_events:
  "snd (submitFollowupQuestion_langchain S question clause) = [ReadApiKey]
   \<or> (\<exists>k. snd (submitFollowupQuestion_langchain S question clause) = [ReadApiKey, NewLLM k])
   \<or> (\<exists>k. snd (submitFollowupQuestion_langchain S question clause)
         = [ReadApiKey, NewLLM k,
            ModelCall k followupTemplate [(''question'', question), (''originalClause'', clause)]])"
  using readApiKey_cases [of S]
  by (auto simp: submitFollowupQuestion_langchain_def createLLMInstance_def chain_invoke_def
      split: option.splits)

lemma langchain_answered:
  "fst (submitFollowupQuestion_langchain S question clause) = Inr a \<Longrightarrow>
   \<exists>k. snd (submitFollowupQuestion_langchain S question clause)
         = [ReadApiKey, NewLLM k,
            ModelCall k followupTemplate [(''question'', question), (''originalClause'', clause)]]"
  using readApiKey_cases [of S]
  by (auto simp: submitFollowupQuestion_langchain_def createLLMInstance_def chain_invoke_def
      split: option.splits if_splits)

text \<open>
  Claim C5.  When the loaded configuration has \<open>useLangChain\<close> on and
  \<open>enableSemanticSearch\<close> off, the wrapper answers through the LangChain follow-up,
  whatever analysis is passed: the vector-store cache is left as it was, no call to the
  embedding provider is made (no embeddings instance, no embedding of documents, no
  similarity query), every model request is the follow-up template filled with the
  question and the whole clause, and an answer that is returned came from exactly one
  such request.
\<close>

theorem submitFollowupQuestion_semantic_disabled:
  assumes "useLangChain (loadAPIConfig stored apiConfig)"
      and "\<not> enableSemanticSearch (loadAPIConfig stored apiConfig)"
  shows "submitFollowupQuestion S stored apiConfig question clause analysisData st
           = (io_map Plain (submitFollowupQuestion_langchain S question clause),
              loadAPIConfig stored apiConfig, st)
         \<and> list_all (\<lambda>ev. \<not> is_embedding_event ev)
             (snd (fst (submitFollowupQuestion S stored apiConfig question clause analysisData st)))
         \<and> list_all (\<lambda>ev. is_model_call ev \<longrightarrow>
                       (\<exists>k. ev = ModelCall k followupTemplate
                               [(''question'', question), (''originalClause'', clause)]))
             (snd (fst (submitFollowupQuestion S stored apiConfig question clause analysisData st)))
         \<and> (\<forall>a. fst (fst (submitFollowupQuestion S stored apiConfig question clause analysisData st))
                  = Inr a \<longrightarrow>
                (\<exists>k. filter is_model_call
                        (snd (fst (submitFollowupQuestion S stored apiConfig question clause
                                     analysisData st)))
                      = [ModelCall k followupTemplate
                           [(''question'', question), (''originalClause'', clause)]]))"
proof -
  have route: "submitFollowupQuestion S stored apiConfig question clause analysisData st
           = (io_map Plain (submitFollowupQuestion_langchain S question clause),
              loadAPIConfig stored apiConfig, st)"
    using assms by (simp add: submitFollowupQuestion_def Let_def)
  have ev: "snd (fst (submitFollowupQuestion S stored apiConfig question clause analysisData st))
              = snd (submitFollowupQuestion_langchain S question clause)"
    by (simp add: route)
  have a: "list_all (\<lambda>ev. \<not> is_embedding_event ev)
             (snd (submitFollowupQuestion_langchain S question clause))"
    using langchain_events [of S question clause] by auto
  have b: "list_all (\<lambda>ev. is_model_call ev \<longrightarrow>
                       (\<exists>k. ev = ModelCall k followupTemplate
                               [(''question'', question), (''originalClause'', clause)]))
             (snd (submitFollowupQuestion_langchain S question clause))"
    using langchain_events [of S question clause] by auto
  have c: "\<exists>k. filter is_model_call (snd (submitFollowupQuestion_langchain S question clause))
                      = [ModelCall k followupTemplate
                           [(''question'', question), (''originalClause'', clause)]]"
    if "fst (fst (submitFollowupQuestion S stored apiConfig question clause analysisData st)) = Inr a"
    for a
  proof -
    from that obtain x where "fst (submitFollowupQuestion_langchain S question clause) = Inr x"
      by (auto simp: route io_map_Inr)
    from langchain_answered [OF this] show ?thesis by auto
  qed
  show ?thesis
    unfolding ev using route a b c by blast
qed


lemma demo_key: "\<exists>key. generateCacheKey (js ''c'') (Some demo_analysis) = Inr key"
  by (simp add: generateCacheKey_def btoa_def JSON_stringify_def json_member_def json_quote_def
      js_def demo_analysis_def lead_surrogate_def trail_surrogate_def)


theorem submitFollowupQuestion_semantic_disabled_witness:
  "useLangChain (loadAPIConfig NoItem (default_apiConfig\<lparr>enableSemanticSearch := False\<rparr>))
   \<and> \<not> enableSemanticSearch (loadAPIConfig NoItem (default_apiConfig\<lparr>enableSemanticSearch := False\<rparr>))
   \<and> submitFollowupQuestion demo_services NoItem (default_apiConfig\<lparr>enableSemanticSearch := False\<rparr>)
         (js ''q'') (js ''c'') (Some demo_analysis) empty_cache
       = ((Inr (Plain \<lparr>answer = js ''[]''\<rparr>),
           [ReadApiKey, NewLLM (js ''k''),
            ModelCall (js ''k'') followupTemplate
              [(''question'', js ''q''), (''originalClause'', js ''c'')]]),
          default_apiConfig\<lparr>enableSemanticSearch := False\<rparr>, empty_cache)"
proof -
  have c: "loadAPIConfig NoItem (default_apiConfig\<lparr>enableSemanticSearch := False\<rparr>)
           = default_apiConfig\<lparr>enableSemanticSearch := False\<rparr>"
    by (simp add: loadAPIConfig_def)
  have u: "useLangChain (default_apiConfig\<lparr>enableSemanticSearch := False\<rparr>)"
    and e: "\<not> enableSemanticSearch (default_apiConfig\<lparr>enableSemanticSearch := False\<rparr>)"
    by (simp_all add: default_apiConfig_def)
  have t: "js_trim (js ''[]'') = js ''[]''"
    by (simp add: js_trim_def js_whitespace_def js_def)
  have l: "submitFollowupQuestion_langchain demo_services (js ''q'') (js ''c'')
           = (Inr \<lparr>answer = js ''[]''\<rparr>,
              [ReadApiKey, NewLLM (js ''k''),
               ModelCall (js ''k'') followupTemplate
                 [(''question'', js ''q''), (''originalClause'', js ''c'')]])"
    by (simp add: submitFollowupQuestion_langchain_def readApiKey_def createLLMInstance_def
        chain_invoke_def demo_services_def t)
  from submitFollowupQuestion_semantic_disabled
         [of NoItem "default_apiConfig\<lparr>enableSemanticSearch := False\<rparr>" demo_services
             "js ''q''" "js ''c''" "Some demo_analysis" empty_cache]
  show ?thesis
    by (simp add: c u e l io_map_def)
qed

theorem submitFollowupQuestion_semantic_key_witness:
  "useLangChain (loadAPIConfig NoItem default_apiConfig)
   \<and> enableSemanticSearch (loadAPIConfig NoItem default_apiConfig)
   \<and> submitFollowupQuestion demo_services NoItem default_apiConfig (js ''q'') (js ''c'')
         (Some demo_analysis) empty_cache
       = ((Inl (Error ''Failed to process enhanced follow-up question''), [NewEmbeddings []]),
          default_apiConfig, empty_cache)
   \<and> list_all (built_with []) [NewEmbeddings []]"
proof -
  have c: "loadAPIConfig NoItem default_apiConfig = default_apiConfig"
    by (simp add: loadAPIConfig_def)
  have u: "useLangChain default_apiConfig" "enableSemanticSearch default_apiConfig"
    by (simp_all add: default_apiConfig_def)
  from demo_key obtain key where key: "generateCacheKey (js ''c'') (Some demo_analysis) = Inr key"
    by blast
  have cr: "createClauseVectorStore demo_services (js ''c'') demo_analysis [] empty_cache
            = ((Inl (Error ''Failed to create vector store for semantic search''),
                [NewEmbeddings []]), empty_cache)"
    by (simp add: createClauseVectorStore_def key empty_cache_def demo_services_def)
  have en: "submitEnhancedFollowupQuestion demo_services (js ''q'') (js ''c'') demo_analysis []
              empty_cache
            = ((Inl (Error ''Failed to process enhanced follow-up question''), [NewEmbeddings []]),
               empty_cache)"
    by (simp add: submitEnhancedFollowupQuestion_def cr)
  from submitFollowupQuestion_semantic_key
         [of NoItem default_apiConfig demo_services "js ''q''" "js ''c''" demo_analysis empty_cache]
  show ?thesis
    by (simp add: c u en io_map_def built_with_def)
qed

lemma map_e_id_replicate: "map_e id (replicate n (Inr x)) = Inr (replicate n x)"
  by (induction n) simp_all

lemma demo_analyzeClause:
  "fst (analyzeClause demo_builtins demo_services c)
   = Inr \<lparr>simplifiedExplanation = js ''[]'', riskyTerms = [], governmentArticles = []\<rparr>"
proof -
  have p: "parseJSONResponse demo_builtins (js ''[]'') (JArr []) = Inr (JArr [])"
    by (simp add: parseJSONResponse_def try_catch_def JSON_parse_e_def demo_builtins_def)
  have t: "js_trim (js ''[]'') = js ''[]''"
    by (simp add: js_trim_def js_whitespace_def js_def)
  have s: "getGeminiApiKey demo_services = Some (js ''k'')" "llm_accepts demo_services (js ''k'')"
    "\<And>t. invoke demo_services (js ''k'') t [(''clause'', c)] = Some (js ''[]'')"
    by (simp_all add: demo_services_def)
  show ?thesis
    using analyzeClause_result [of demo_services "js ''k''" c "js ''[]''" "js ''[]''" "js ''[]''"
        demo_builtins "JArr []" "JArr []"]
    by (simp add: s p t validateRiskyTerms_def validateGovernmentArticles_def)
qed

lemma demo_batch_result:
  "fst (analyzeBatchClauses demo_builtins demo_services (replicate n c))
   = Inr (replicate n
       \<lparr>simplifiedExplanation = js ''[]'', riskyTerms = [], governmentArticles = []\<rparr>)"
proof -
  have "readApiKey demo_services = (Inr (js ''k''), [ReadApiKey])"
    by (simp add: readApiKey_def demo_services_def)
  then show ?thesis
    by (simp add: analyzeBatchClauses_def promise_all_def demo_analyzeClause map_e_id_replicate
        map_replicate_const [symmetric] comp_def del: map_replicate_const replicate.simps)
qed

text \<open>
  Claim C4, as stated, fails: \<^verbatim>\<open>processBatchClauses\<close> has no batch-size check.  With both
  toggles on and credentials present, a list of 11 clauses is analysed: the call returns 11
  results after 33 model requests.
\<close>

theorem processBatchClauses_eleven_clauses:
  "length (replicate 11 (js ''clause'')) = 11
   \<and> fst (fst (processBatchClauses demo_builtins demo_services NoItem default_apiConfig
              (replicate 11 (js ''clause''))))
       = Inr (replicate 11
           \<lparr>simplifiedExplanation = js ''[]'', riskyTerms = [], governmentArticles = []\<rparr>)
   \<and> length (filter is_model_call
         (snd (fst (processBatchClauses demo_builtins demo_services NoItem default_apiConfig
                      (replicate 11 (js ''clause'')))))) = 33"
proof -
  have c: "loadAPIConfig NoItem default_apiConfig = default_apiConfig"
    by (simp add: loadAPIConfig_def)
  have u: "useLangChain default_apiConfig" "enableBatchProcessing default_apiConfig"
    by (simp_all add: default_apiConfig_def)
  have p: "fst (processBatchClauses demo_builtins demo_services NoItem default_apiConfig cs)
           = analyzeBatchClauses demo_builtins demo_services cs" for cs
    by (simp add: processBatchClauses_def c u)
  have s: "getGeminiApiKey demo_services = Some (js ''k'')" "js ''k'' \<noteq> []"
    "llm_accepts demo_services (js ''k'')"
    by (simp_all add: demo_services_def)
  show ?thesis
    unfolding p by (simp add: demo_batch_result batch_model_calls [OF s] del: replicate.simps)
qed

text \<open>
  Claim C4, amended.  \<^verbatim>\<open>processBatchClauses\<close> applies no ceiling of its own: for a list of
  any length, with both toggles on, it is \<^verbatim>\<open>analyzeBatchClauses\<close> on the whole list, which
  with credentials present and a model instance constructed issues three model requests
  per clause.  (The ceiling of 10 is applied by the caller in the batch demo component,
  which shows a warning and does not call \<^verbatim>\<open>processBatchClauses\<close>.)
\<close>

theorem processBatchClauses_no_ceiling:
  assumes "useLangChain (loadAPIConfig stored apiConfig)"
      and "enableBatchProcessing (loadAPIConfig stored apiConfig)"
  shows "fst (processBatchClauses B S stored apiConfig clauses) = analyzeBatchClauses B S clauses
         \<and> (\<forall>k. getGeminiApiKey S = Some k \<and> k \<noteq> [] \<and> llm_accepts S k \<longrightarrow>
               length (filter is_model_call
                 (snd (fst (processBatchClauses B S stored apiConfig clauses))))
               = 3 * length clauses)"
proof -
  have p: "fst (processBatchClauses B S stored apiConfig clauses) = analyzeBatchClauses B S clauses"
    using assms by (simp add: processBatchClauses_def Let_def)
  show ?thesis
    unfolding p by (auto intro: batch_model_calls)
qed

theorem processBatchClauses_no_ceiling_witness:
  "useLangChain (loadAPIConfig NoItem default_apiConfig)
   \<and> enableBatchProcessing (loadAPIConfig NoItem default_apiConfig)
   \<and> getGeminiApiKey demo_services = Some (js ''k'') \<and> js ''k'' \<noteq> []
   \<and> llm_accepts demo_services (js ''k'')
   \<and> fst (processBatchClauses demo_builtins demo_services NoItem default_apiConfig
            (replicate 11 (js ''clause'')))
       = analyzeBatchClauses demo_builtins demo_services (replicate 11 (js ''clause''))
   \<and> length (filter is_model_call
         (snd (fst (processBatchClauses demo_builtins demo_services NoItem default_apiConfig
                      (replicate 11 (js ''clause'')))))) = 3 * 11"
proof -
  have c: "loadAPIConfig NoItem default_apiConfig = default_apiConfig"
    by (simp add: loadAPIConfig_def)
  have u: "useLangChain default_apiConfig" "enableBatchProcessing default_apiConfig"
    by (simp_all add: default_apiConfig_def)
  have s: "getGeminiApiKey demo_services = Some (js ''k'')" "js ''k'' \<noteq> []"
    "llm_accepts demo_services (js ''k'')"
    by (simp_all add: demo_services_def)
  have n: "3 * length (replicate 11 (js ''clause'')) = 3 * 11"
    by simp
  from processBatchClauses_no_ceiling
         [of NoItem default_apiConfig demo_builtins demo_services "replicate 11 (js ''clause'')",
          unfolded c n, OF u]
  have "fst (processBatchClauses demo_builtins demo_services NoItem default_apiConfig
            (replicate 11 (js ''clause'')))
       = analyzeBatchClauses demo_builtins demo_services (replicate 11 (js ''clause''))"
    and "length (filter is_model_call
         (snd (fst (processBatchClauses demo_builtins demo_services NoItem default_apiConfig
                      (replicate 11 (js ''clause'')))))) = 3 * 11"
    using s by blast+
  then show ?thesis
    unfolding c using u s by (intro conjI)
qed


section \<open>Embedding index: the cache of vector stores\<close>


lemma update_fresh: "map_of m k = None \<Longrightarrow> AList.update k v m = m @ [(k, v)]"
  by (induction m) (auto split: if_splits)

lemma delete_first:
  "distinct (map fst ((k, v) # rest)) \<Longrightarrow> AList.delete k ((k, v) # rest) = rest"
  by (force simp: AList.delete_eq intro!: filter_True)

lemma map_of_None_iff: "map_of m k = None \<longleftrightarrow> k \<notin> fst ` set m"
  by (simp add: map_of_eq_None_iff)

text \<open>What adding a fresh entry does to the map.\<close>

lemma evict_after_insert:
  assumes "distinct (map fst m)" "map_of m k = None"
  shows "evict_oldest (AList.update k v m)
         = (if 10 \<le> length m then tl m @ [(k, v)] else m @ [(k, v)])"
proof (cases m)
  case Nil
  then show ?thesis by (simp add: evict_oldest_def)
next
  case (Cons p rest)
  obtain k0 v0 where p: "p = (k0, v0)" by (cases p)
  have "k \<notin> fst ` set m" using assms(2) by (simp add: map_of_None_iff)
  then have d: "distinct (map fst ((k0, v0) # rest @ [(k, v)]))"
    using assms(1) by (auto simp: Cons p)
  have upd: "AList.update k v m = m @ [(k, v)]"
    by (rule update_fresh [OF assms(2)])
  have del: "AList.delete k0 (m @ [(k, v)]) = tl m @ [(k, v)]"
    using delete_first [OF d] by (simp add: Cons p)
  show ?thesis
  proof (cases "10 \<le> length m")
    case True
    then have "10 < length (m @ [(k, v)])" by simp
    then have "evict_oldest (m @ [(k, v)]) = AList.delete k0 (m @ [(k, v)])"
      by (simp add: evict_oldest_def Cons p)
    with del upd True show ?thesis by simp
  next
    case False
    then have "\<not> 10 < length (m @ [(k, v)])" by simp
    then have "evict_oldest (m @ [(k, v)]) = m @ [(k, v)]"
      by (simp only: evict_oldest_def if_False)
    with upd False show ?thesis by simp
  qed
qed

lemma create_miss:
  assumes "generateCacheKey c (Some d) = Inr key" "map_of (vectorStoreCache st) key = None"
      and "createClauseVectorStore S c d k st = ((Inr e, evs), st')"
  shows "handle e = next_handle st \<and> next_handle st' = Suc (next_handle st)
         \<and> vectorStoreCache st' = evict_oldest (AList.update key e (vectorStoreCache st))"
  using assms
  by (auto simp: createClauseVectorStore_def Let_def split: if_splits)

lemma create_hit:
  assumes "generateCacheKey c (Some d) = Inr key" "map_of (vectorStoreCache st) key = Some e"
  shows "createClauseVectorStore S c d k st = ((Inr e, []), st)"
  using assms by (simp add: createClauseVectorStore_def)

lemma create_failure_keeps_cache:
  assumes "createClauseVectorStore S c d k st = ((Inl err, evs), st')"
  shows "st' = st"
  using assms
  by (auto simp: createClauseVectorStore_def Let_def split: sum.splits option.splits if_splits)

lemma create_key:
  assumes "createClauseVectorStore S c d k st = ((Inr e, evs), st')"
  shows "\<exists>key. generateCacheKey c (Some d) = Inr key"
  using assms by (cases "generateCacheKey c (Some d)") (simp_all add: createClauseVectorStore_def)

lemma create_cached:
  assumes inv: "cache_inv st"
      and key: "generateCacheKey c (Some d) = Inr key"
      and run: "createClauseVectorStore S c d k st = ((Inr e, evs), st')"
  shows "map_of (vectorStoreCache st') key = Some e"
proof (cases "map_of (vectorStoreCache st) key")
  case (Some e0)
  from create_hit [OF key Some, of S k] run show ?thesis using Some by simp
next
  case None
  have dist: "distinct (map fst (vectorStoreCache st))" using inv by (simp add: cache_inv_def)
  from create_miss [OF key None run]
  have c': "vectorStoreCache st' = evict_oldest (AList.update key e (vectorStoreCache st))" by simp
  have "key \<notin> fst ` set (vectorStoreCache st)"
    using None by (simp add: map_of_None_iff)
  then have "key \<notin> fst ` set (tl (vectorStoreCache st))"
    by (cases "vectorStoreCache st") auto
  then have "map_of (tl (vectorStoreCache st)) key = None"
    by (simp add: map_of_None_iff)
  then have "map_of (tl (vectorStoreCache st) @ [(key, e)]) key = Some e"
    by (simp add: map_add_def)
  moreover have "map_of (vectorStoreCache st @ [(key, e)]) key = Some e"
    using None by (simp add: map_add_def)
  ultimately show ?thesis
    unfolding c' evict_after_insert [OF dist None] by simp
qed

lemma create_inv:
  assumes inv: "cache_inv st"
      and run: "createClauseVectorStore S c d k st = ((Inr e, evs), st')"
  shows "cache_inv st' \<and> next_handle st \<le> next_handle st'"
proof -
  from create_key [OF run] obtain key where key: "generateCacheKey c (Some d) = Inr key" by blast
  show ?thesis
  proof (cases "map_of (vectorStoreCache st) key")
    case (Some e0)
    from create_hit [OF key Some, of S k] run show ?thesis using inv by simp
  next
    case None
    let ?m = "vectorStoreCache st"
    have dist: "distinct (map fst ?m)"
      and hd: "distinct (map (\<lambda>kv. handle (snd kv)) ?m)"
      and lt: "list_all (\<lambda>kv. handle (snd kv) < next_handle st) ?m"
      using inv by (simp_all add: cache_inv_def)
    from create_miss [OF key None run]
    have h: "handle e = next_handle st" and n: "next_handle st' = Suc (next_handle st)"
      and c': "vectorStoreCache st' = evict_oldest (AList.update key e ?m)"
      by simp_all
    have fresh: "key \<notin> fst ` set ?m" using None by (simp add: map_of_None_iff)
    have hfresh: "handle e \<notin> (\<lambda>kv. handle (snd kv)) ` set ?m"
      using lt h by (auto simp: list_all_iff)
    have full: "cache_inv \<lparr>vectorStoreCache = ?m @ [(key, e)], next_handle = Suc (next_handle st)\<rparr>"
      using dist hd lt fresh hfresh h
      by (auto simp: cache_inv_def list_all_iff less_Suc_eq)
    have tl_inv: "cache_inv \<lparr>vectorStoreCache = tl xs, next_handle = nh\<rparr>"
      if "cache_inv \<lparr>vectorStoreCache = xs, next_handle = nh\<rparr>" for xs nh
      using that by (cases xs) (auto simp: cache_inv_def)
    have "cache_inv \<lparr>vectorStoreCache = tl ?m @ [(key, e)], next_handle = Suc (next_handle st)\<rparr>"
      if "?m \<noteq> []"
      using tl_inv [OF full] that by simp
    moreover have "?m \<noteq> []" if "10 \<le> length ?m"
      using that by auto
    ultimately have "cache_inv \<lparr>vectorStoreCache = vectorStoreCache st', next_handle = next_handle st'\<rparr>"
      unfolding c' n evict_after_insert [OF dist None] using full by auto
    then show ?thesis using n by (simp add: cache_inv_def)
  qed
qed

lemma create_size:
  assumes inv: "cache_inv st" and le: "length (vectorStoreCache st) \<le> 10"
      and run: "createClauseVectorStore S c d k st = ((Inr e, evs), st')"
  shows "length (vectorStoreCache st') \<le> 10"
proof -
  from create_key [OF run] obtain key where key: "generateCacheKey c (Some d) = Inr key" by blast
  show ?thesis
  proof (cases "map_of (vectorStoreCache st) key")
    case (Some e0)
    from create_hit [OF key Some, of S k] run show ?thesis using le by simp
  next
    case None
    have dist: "distinct (map fst (vectorStoreCache st))" using inv by (simp add: cache_inv_def)
    from create_miss [OF key None run] show ?thesis
      using le by (simp add: evict_after_insert [OF dist None])
  qed
qed

lemma handles_differ:
  assumes "cache_inv st" "map_of (vectorStoreCache st) k1 = Some e1"
      "map_of (vectorStoreCache st) k2 = Some e2" "k1 \<noteq> k2"
  shows "handle e1 \<noteq> handle e2"
proof -
  have d: "distinct (map (\<lambda>kv. handle (snd kv)) (vectorStoreCache st))"
    using assms(1) by (simp add: cache_inv_def)
  have m1: "(k1, e1) \<in> set (vectorStoreCache st)" and m2: "(k2, e2) \<in> set (vectorStoreCache st)"
    using assms(2,3) by (auto dest: map_of_SomeD)
  have "inj_on (\<lambda>kv. handle (snd kv)) (set (vectorStoreCache st))"
    using d by (simp add: distinct_map)
  from inj_onD [OF this _ m1 m2] assms(4) show ?thesis by auto
qed

lemma create_distinct:
  assumes inv: "cache_inv st1" and e1: "map_of (vectorStoreCache st1) key1 = Some e1"
      and key2: "generateCacheKey c2 (Some d2) = Inr key2" and ne: "key2 \<noteq> key1"
      and run: "createClauseVectorStore S c2 d2 k2 st1 = ((Inr e2, evs2), st2)"
  shows "handle e2 \<noteq> handle e1"
proof (cases "map_of (vectorStoreCache st1) key2")
  case (Some e0)
  from create_hit [OF key2 Some, of S k2] run have "e2 = e0" by simp
  with handles_differ [OF inv e1 Some] ne show ?thesis by auto
next
  case None
  from create_miss [OF key2 None run] have h: "handle e2 = next_handle st1" by simp
  have "(key1, e1) \<in> set (vectorStoreCache st1)" using e1 by (auto dest: map_of_SomeD)
  then have "handle e1 < next_handle st1"
    using inv by (auto simp: cache_inv_def list_all_iff)
  with h show ?thesis by simp
qed


lemma cache_inv_empty: "cache_inv empty_cache"
  by (simp add: cache_inv_def empty_cache_def)

lemma create_evicts_oldest:
  assumes inv: "cache_inv st"
      and key: "generateCacheKey c (Some d) = Inr key"
      and miss: "map_of (vectorStoreCache st) key = None"
      and full: "length (vectorStoreCache st) = 10"
      and run: "createClauseVectorStore S c d k st = ((Inr e, evs), st')"
  shows "vectorStoreCache st' = tl (vectorStoreCache st) @ [(key, e)]"
proof -
  have dist: "distinct (map fst (vectorStoreCache st))" using inv by (simp add: cache_inv_def)
  from create_miss [OF key miss run] show ?thesis
    using full by (simp add: evict_after_insert [OF dist miss])
qed

text \<open>
  Claim C2, amended.  The key of an entry is the fingerprint of \<^verbatim>\<open>generateCacheKey\<close>: Base64
  of the first 100 code units of the clause and of the first 50 code units of the
  stringified analysis.  From a well-formed cache of at most 10 entries, a call that
  succeeds leaves a well-formed cache of at most 10 entries in which its entry is cached:
  a following call whose inputs have the same fingerprint (identical inputs in particular)
  returns that same entry without any call to the embedding provider and without changing
  the cache; a following successful call whose inputs have a different fingerprint returns
  an entry of a different identity; and when the call added its entry to a cache of 10,
  the entry inserted first is the one that was evicted.
\<close>

theorem createClauseVectorStore_cache:
  assumes inv: "cache_inv st"
      and le: "length (vectorStoreCache st) \<le> 10"
      and run: "createClauseVectorStore S c1 d1 k1 st = ((Inr e1, evs1), st1)"
  shows "cache_inv st1 \<and> length (vectorStoreCache st1) \<le> 10
         \<and> (\<forall>c2 d2 k2. generateCacheKey c2 (Some d2) = generateCacheKey c1 (Some d1) \<longrightarrow>
               createClauseVectorStore S c2 d2 k2 st1 = ((Inr e1, []), st1))
         \<and> (\<forall>c2 d2 k2 e2 evs2 st2.
               generateCacheKey c2 (Some d2) \<noteq> generateCacheKey c1 (Some d1)
               \<and> createClauseVectorStore S c2 d2 k2 st1 = ((Inr e2, evs2), st2) \<longrightarrow>
               handle e2 \<noteq> handle e1)
         \<and> (\<forall>key. generateCacheKey c1 (Some d1) = Inr key
               \<and> map_of (vectorStoreCache st) key = None
               \<and> length (vectorStoreCache st) = 10 \<longrightarrow>
               vectorStoreCache st1 = tl (vectorStoreCache st) @ [(key, e1)])"
proof -
  from create_key [OF run] obtain key1 where key1: "generateCacheKey c1 (Some d1) = Inr key1"
    by blast
  have inv1: "cache_inv st1"
    using create_inv [OF inv run] by simp
  have size1: "length (vectorStoreCache st1) \<le> 10"
    by (rule create_size [OF inv le run])
  have cached: "map_of (vectorStoreCache st1) key1 = Some e1"
    by (rule create_cached [OF inv key1 run])
  have same: "createClauseVectorStore S c2 d2 k2 st1 = ((Inr e1, []), st1)"
    if "generateCacheKey c2 (Some d2) = generateCacheKey c1 (Some d1)" for c2 d2 k2
    using that key1 by (intro create_hit [OF _ cached]) simp
  have other: "handle e2 \<noteq> handle e1"
    if "generateCacheKey c2 (Some d2) \<noteq> generateCacheKey c1 (Some d1)"
      and "createClauseVectorStore S c2 d2 k2 st1 = ((Inr e2, evs2), st2)"
    for c2 d2 k2 e2 evs2 st2
  proof -
    from create_key [OF that(2)] obtain key2 where key2: "generateCacheKey c2 (Some d2) = Inr key2"
      by blast
    with that(1) key1 have "key2 \<noteq> key1" by simp
    from create_distinct [OF inv1 cached key2 this that(2)] show ?thesis .
  qed
  have evict: "vectorStoreCache st1 = tl (vectorStoreCache st) @ [(key, e1)]"
    if "generateCacheKey c1 (Some d1) = Inr key" "map_of (vectorStoreCache st) key = None"
       "length (vectorStoreCache st) = 10" for key
    by (rule create_evicts_oldest [OF inv that run])
  from inv1 size1 same other evict show ?thesis by blast
qed

text \<open>Two clauses that agree on their first 100 code units.\<close>

lemma demo_long_key:
  "\<exists>key. generateCacheKey (replicate 100 97 @ [98]) (Some demo_analysis) = Inr key
         \<and> generateCacheKey (replicate 100 97 @ [99]) (Some demo_analysis) = Inr key"
proof -
  have "btoa (replicate 100 97) = Inr (b64_encode (replicate 100 97))"
    by (simp add: btoa_def)
  moreover have "\<exists>a. btoa (take 50 (JSON_stringify demo_analysis)) = Inr a"
    by (simp add: btoa_def JSON_stringify_def json_member_def json_quote_def
      js_def demo_analysis_def lead_surrogate_def trail_surrogate_def)
  ultimately show ?thesis
    by (auto simp: generateCacheKey_def)
qed

lemma demo_create:
  assumes "generateCacheKey c (Some d) = Inr key"
  shows "\<exists>e evs st1. createClauseVectorStore demo_services c d (js ''k'') empty_cache
           = ((Inr e, evs), st1)"
  using assms
  by (simp add: createClauseVectorStore_def empty_cache_def demo_services_def Let_def)

text \<open>
  Claim C2, as stated, fails: different inputs do not always give distinct entries.  Two
  clauses of 101 code units that differ only in the last one have the same fingerprint;
  after the first is indexed, the call for the second returns the entry of the first, with
  no embedding.
\<close>

theorem createClauseVectorStore_collision:
  "replicate 100 97 @ [98] \<noteq> replicate 100 (97::nat) @ [99]
   \<and> (\<exists>e evs st1.
         createClauseVectorStore demo_services (replicate 100 97 @ [98]) demo_analysis (js ''k'')
           empty_cache = ((Inr e, evs), st1)
         \<and> createClauseVectorStore demo_services (replicate 100 97 @ [99]) demo_analysis (js ''k'')
             st1 = ((Inr e, []), st1))"
proof -
  from demo_long_key obtain key where
    k1: "generateCacheKey (replicate 100 97 @ [98]) (Some demo_analysis) = Inr key" and
    k2: "generateCacheKey (replicate 100 97 @ [99]) (Some demo_analysis) = Inr key"
    by blast
  from demo_create [OF k1] obtain e evs st1 where
    run: "createClauseVectorStore demo_services (replicate 100 97 @ [98]) demo_analysis (js ''k'')
           empty_cache = ((Inr e, evs), st1)"
    by blast
  have "map_of (vectorStoreCache st1) key = Some e"
    by (rule create_cached [OF cache_inv_empty k1 run])
  from create_hit [OF k2 this]
  have "createClauseVectorStore demo_services (replicate 100 97 @ [99]) demo_analysis (js ''k'')
             st1 = ((Inr e, []), st1)" .
  with run show ?thesis by auto
qed

lemma demo_key_c:
  "generateCacheKey (js ''c'') (Some demo_analysis)
   = Inr (js ''Yw==_eyJzaW1wbGlmaWVkRXhwbGFuYXRpb24iOiJwbGFpbiIsInJpc2t5VGVybXMiOltdLCI='')"
  by (simp add: generateCacheKey_def btoa_def JSON_stringify_def json_member_def json_quote_def
      js_def demo_analysis_def lead_surrogate_def trail_surrogate_def b64_char_def)

lemma demo_key_d:
  "generateCacheKey (js ''d'') (Some demo_analysis)
   = Inr (js ''ZA==_eyJzaW1wbGlmaWVkRXhwbGFuYXRpb24iOiJwbGFpbiIsInJpc2t5VGVybXMiOltdLCI='')"
  by (simp add: generateCacheKey_def btoa_def JSON_stringify_def json_member_def json_quote_def
      js_def demo_analysis_def lead_surrogate_def trail_surrogate_def b64_char_def)

lemma cache_inv_full: "cache_inv demo_full_cache"
  by (simp add: cache_inv_def demo_full_cache_def)

lemma demo_full_miss:
  "map_of (vectorStoreCache demo_full_cache)
     (js ''Yw==_eyJzaW1wbGlmaWVkRXhwbGFuYXRpb24iOiJwbGFpbiIsInJpc2t5VGVybXMiOltdLCI='') = None"
  by (simp add: demo_full_cache_def js_def)

lemma demo_create_miss:
  assumes "generateCacheKey c (Some d) = Inr key" "map_of (vectorStoreCache st) key = None"
  shows "\<exists>e evs st1. createClauseVectorStore demo_services c d (js ''k'') st
           = ((Inr e, evs), st1)"
  using assms
  by (simp add: createClauseVectorStore_def demo_services_def Let_def)

theorem createClauseVectorStore_cache_witness:
  "cache_inv demo_full_cache \<and> length (vectorStoreCache demo_full_cache) \<le> 10
   \<and> (\<exists>e evs st1 e2 evs2 st2.
         createClauseVectorStore demo_services (js ''c'') demo_analysis (js ''k'') demo_full_cache
           = ((Inr e, evs), st1)
         \<and> cache_inv st1 \<and> length (vectorStoreCache st1) \<le> 10
         \<and> createClauseVectorStore demo_services (js ''c'') demo_analysis (js ''k'') st1
             = ((Inr e, []), st1)
         \<and> generateCacheKey (js ''d'') (Some demo_analysis)
             \<noteq> generateCacheKey (js ''c'') (Some demo_analysis)
         \<and> createClauseVectorStore demo_services (js ''d'') demo_analysis (js ''k'') st1
             = ((Inr e2, evs2), st2)
         \<and> handle e2 \<noteq> handle e
         \<and> length (vectorStoreCache demo_full_cache) = 10
         \<and> vectorStoreCache st1
             = tl (vectorStoreCache demo_full_cache)
               @ [(js ''Yw==_eyJzaW1wbGlmaWVkRXhwbGFuYXRpb24iOiJwbGFpbiIsInJpc2t5VGVybXMiOltdLCI='', e)])"
proof -
  let ?kc = "js ''Yw==_eyJzaW1wbGlmaWVkRXhwbGFuYXRpb24iOiJwbGFpbiIsInJpc2t5VGVybXMiOltdLCI=''"
  let ?kd = "js ''ZA==_eyJzaW1wbGlmaWVkRXhwbGFuYXRpb24iOiJwbGFpbiIsInJpc2t5VGVybXMiOltdLCI=''"
  have le: "length (vectorStoreCache demo_full_cache) \<le> 10"
    and full: "length (vectorStoreCache demo_full_cache) = 10"
    by (simp_all add: demo_full_cache_def)
  from demo_create_miss [OF demo_key_c demo_full_miss] obtain e evs st1 where
    run: "createClauseVectorStore demo_services (js ''c'') demo_analysis (js ''k'') demo_full_cache
           = ((Inr e, evs), st1)"
    by blast
  note T = createClauseVectorStore_cache [OF cache_inv_full le run]
  from T have inv1: "cache_inv st1" and le1: "length (vectorStoreCache st1) \<le> 10"
    by blast+
  from T have again:
    "createClauseVectorStore demo_services (js ''c'') demo_analysis (js ''k'') st1
       = ((Inr e, []), st1)"
    by blast
  from T demo_key_c demo_full_miss full
  have cache1: "vectorStoreCache st1 = tl (vectorStoreCache demo_full_cache) @ [(?kc, e)]"
    by blast
  have ne: "generateCacheKey (js ''d'') (Some demo_analysis)
             \<noteq> generateCacheKey (js ''c'') (Some demo_analysis)"
    by (simp add: demo_key_c demo_key_d)
  have "map_of (vectorStoreCache st1) ?kd = None"
    unfolding cache1 by (simp add: demo_full_cache_def js_def)
  from demo_create_miss [OF demo_key_d this] obtain e2 evs2 st2 where
    run2: "createClauseVectorStore demo_services (js ''d'') demo_analysis (js ''k'') st1
           = ((Inr e2, evs2), st2)"
    by blast
  from T ne run2 have "handle e2 \<noteq> handle e"
    by blast
  with cache_inv_full le full run inv1 le1 again ne run2 cache1 show ?thesis
    by blast
qed


end
